theory Spec2Isabelle
  imports Main
begin

text \<open>
  A shallow embedding of the OpenRouter adapter: the completion client
  (\<^verbatim>\<open>lib/openrouter.ts\<close>, class \<^verbatim>\<open>OpenRouterClient\<close>) and the session adapter with its stream
  transcoder (\<^verbatim>\<open>lib/openrouter-adapter.ts\<close>, class \<^verbatim>\<open>OpenRouterAdapter\<close>). Asynchronous
  functions are modelled by what they do to an explicit state once their promises have
  settled; a rejected promise and a thrown exception are the \<open>Inl\<close> of a sum. Line numbers
  refer to those two files.
\<close>

section \<open>JavaScript values as the adapter sees them\<close>

text \<open>
  The adapter reads two kinds of upstream data with no run-time type check: the body of a
  synchronous completion (\<^verbatim>\<open>await response.json()\<close>, cast to \<^verbatim>\<open>any\<close>) and the payload of
  every streamed data record (\<^verbatim>\<open>JSON.parse(data)\<close>). Both are arbitrary JSON values, so they
  are modelled as such. The program observes a JSON number in two ways only: by its
  truthiness (\<^verbatim>\<open>if (content)\<close>, \<^verbatim>\<open>content || '...'\<close>) and by its string coercion
  (\<^verbatim>\<open>assistantMessage += content\<close>); a number is therefore represented by these two
  observations, which keeps IEEE doubles out of the model.
  \<^verbatim>\<open>undefined\<close> is the \<open>None\<close> of an option around a value.
\<close>

datatype jsnum = JsNum (num_truthy: bool) (num_text: string)

datatype json =
    JNull
  | JBool bool
  | JNumber jsnum
  | JString string
  | JArray "json list"
  | JObject "(string \<times> json) list"

text \<open>A thrown value: \<^verbatim>\<open>new Error(msg)\<close>, or one of the run-time's own errors.\<close>

datatype error = Error string | TypeError string | SyntaxError string

text \<open>
  Reading a property (\<^verbatim>\<open>v.k\<close>) of a value that is neither \<^verbatim>\<open>null\<close> nor \<^verbatim>\<open>undefined\<close>, for
  the keys the adapter reads (\<^verbatim>\<open>choices\<close>, \<^verbatim>\<open>message\<close>, \<^verbatim>\<open>delta\<close>, \<^verbatim>\<open>content\<close>): none of them is
  a built-in property of strings, arrays, numbers or booleans, so only an object can have
  it. An object is the association list the parser produced.
\<close>

fun get_prop :: "json \<Rightarrow> string \<Rightarrow> json option" where
  "get_prop (JObject kvs) k = map_of kvs k"
| "get_prop _ k = None"

text \<open>Reading index \<^verbatim>\<open>[0]\<close> of a value that is neither \<^verbatim>\<open>null\<close> nor \<^verbatim>\<open>undefined\<close>.\<close>

fun get_index0 :: "json \<Rightarrow> json option" where
  "get_index0 (JArray xs) = (case xs of [] \<Rightarrow> None | x # _ \<Rightarrow> Some x)"
| "get_index0 (JString s) = (case s of [] \<Rightarrow> None | c # _ \<Rightarrow> Some (JString [c]))"
| "get_index0 (JObject kvs) = map_of kvs ''0''"
| "get_index0 _ = None"

definition nullish :: "json option \<Rightarrow> bool" where
  "nullish v \<longleftrightarrow> v = None \<or> v = Some JNull"

text \<open>\<^verbatim>\<open>v.k\<close> and \<^verbatim>\<open>v[0]\<close> throw a TypeError on \<^verbatim>\<open>null\<close> and \<^verbatim>\<open>undefined\<close>.\<close>

definition member :: "json option \<Rightarrow> string \<Rightarrow> error + json option" where
  "member v k =
     (case v of
        None \<Rightarrow> Inl (TypeError ''Cannot read properties of undefined'')
      | Some JNull \<Rightarrow> Inl (TypeError ''Cannot read properties of null'')
      | Some x \<Rightarrow> Inr (get_prop x k))"

definition index0 :: "json option \<Rightarrow> error + json option" where
  "index0 v =
     (case v of
        None \<Rightarrow> Inl (TypeError ''Cannot read properties of undefined'')
      | Some JNull \<Rightarrow> Inl (TypeError ''Cannot read properties of null'')
      | Some x \<Rightarrow> Inr (get_index0 x))"

text \<open>\<^verbatim>\<open>v?.k\<close> and \<^verbatim>\<open>v?.[0]\<close> give \<^verbatim>\<open>undefined\<close> on \<^verbatim>\<open>null\<close> and \<^verbatim>\<open>undefined\<close>.\<close>

definition opt_member :: "json option \<Rightarrow> string \<Rightarrow> json option" where
  "opt_member v k =
     (case v of None \<Rightarrow> None | Some JNull \<Rightarrow> None | Some x \<Rightarrow> get_prop x k)"

definition opt_index0 :: "json option \<Rightarrow> json option" where
  "opt_index0 v =
     (case v of None \<Rightarrow> None | Some JNull \<Rightarrow> None | Some x \<Rightarrow> get_index0 x)"

text \<open>Truthiness, as \<^verbatim>\<open>if (v)\<close> and \<^verbatim>\<open>v || w\<close> test it.\<close>

fun truthy :: "json option \<Rightarrow> bool" where
  "truthy None = False"
| "truthy (Some JNull) = False"
| "truthy (Some (JBool b)) = b"
| "truthy (Some (JNumber n)) = num_truthy n"
| "truthy (Some (JString s)) = (s \<noteq> [])"
| "truthy (Some (JArray xs)) = True"
| "truthy (Some (JObject kvs)) = True"

text \<open>
  String coercion, as \<^verbatim>\<open>s += v\<close> performs it: an array is its elements joined by commas,
  with \<^verbatim>\<open>null\<close> elements empty; an object is \<^verbatim>\<open>[object Object]\<close>.
\<close>

fun js_toString :: "json \<Rightarrow> string" and js_join :: "json list \<Rightarrow> string" where
  "js_toString JNull = ''null''"
| "js_toString (JBool b) = (if b then ''true'' else ''false'')"
| "js_toString (JNumber n) = num_text n"
| "js_toString (JString s) = s"
| "js_toString (JArray xs) = js_join xs"
| "js_toString (JObject kvs) = ''[object Object]''"
| "js_join [] = []"
| "js_join [x] = (if x = JNull then [] else js_toString x)"
| "js_join (x # y # ys) = (if x = JNull then [] else js_toString x) @ '','' @ js_join (y # ys)"

text \<open>
  \<^verbatim>\<open>response.choices[0]?.message?.content\<close> of the synchronous path (adapter, lines 99
  and 164): the first two reads are plain, the last two optional.
\<close>

definition sync_content :: "json \<Rightarrow> error + json option" where
  "sync_content response =
     (case member (Some response) ''choices'' of
        Inl e \<Rightarrow> Inl e
      | Inr choices \<Rightarrow>
          (case index0 choices of
             Inl e \<Rightarrow> Inl e
           | Inr choice \<Rightarrow> Inr (opt_member (opt_member choice ''message'') ''content'')))"

text \<open>
  \<^verbatim>\<open>parsed.choices?.[0]?.delta?.content\<close> of the streamed path (adapter, line 241): only
  the first read is plain.
\<close>

definition delta_content :: "json \<Rightarrow> error + json option" where
  "delta_content parsed =
     (case member (Some parsed) ''choices'' of
        Inl e \<Rightarrow> Inl e
      | Inr choices \<Rightarrow>
          Inr (opt_member (opt_member (opt_index0 choices) ''delta'') ''content''))"

text \<open>
  \<^verbatim>\<open>chunk.split('\n')\<close>: never empty (the empty chunk is one empty line); a trailing
  newline gives a last empty line.
\<close>

fun split_lines :: "string \<Rightarrow> string list" where
  "split_lines [] = [] # []"
| "split_lines (c # cs) =
     (if c = CHR 0x0A then [] # split_lines cs
      else (case split_lines cs of [] \<Rightarrow> [c] # [] | l # ls \<Rightarrow> (c # l) # ls))"

text \<open>\<^verbatim>\<open>line.startsWith(p)\<close>.\<close>

definition startsWith :: "string \<Rightarrow> string \<Rightarrow> bool" where
  "startsWith line p \<longleftrightarrow> take (length p) line = p"

text \<open>A number in a template literal: the decimal digits of a natural number.\<close>

fun decimal :: "nat \<Rightarrow> string" where
  "decimal n =
     (if n < 10 then [''0123456789'' ! n]
      else decimal (n div 10) @ [''0123456789'' ! (n mod 10)])"

declare decimal.simps [simp del]

section \<open>Data model\<close>

text \<open>
  \<^verbatim>\<open>ChatMessage\<close> and \<^verbatim>\<open>ChatDetail\<close> of the adapter (lines 5 to 18); optional fields are
  options. The declared type of \<^verbatim>\<open>content\<close> is \<^verbatim>\<open>string\<close>, but the synchronous path
  stores whatever truthy value the upstream JSON holds there, so the field is a value.
\<close>

datatype role = System | User | Assistant

record ChatMessage =
  m_id :: "string option"
  m_role :: role
  m_content :: json
  m_created_at :: "int option"

record ChatDetail =
  c_id :: string
  c_created_at :: int
  c_updated_at :: int
  c_demo :: "bool option"
  c_messages :: "ChatMessage list"

datatype responseMode = Sync | Experimental_stream

text \<open>
  \<^verbatim>\<open>CreateChatOptions\<close> and \<^verbatim>\<open>SendMessageOptions\<close> (lines 20 to 35), without
  \<^verbatim>\<open>attachments\<close>, which no code reads. An absent, \<^verbatim>\<open>null\<close> or \<^verbatim>\<open>undefined\<close> field is
  \<open>None\<close>.
\<close>

record CreateChatOptions =
  message :: string
  responseMode :: "responseMode option"
  model :: "string option"
  apiKey :: "string option"

record SendMessageOptions = CreateChatOptions +
  chatId :: string

text \<open>\<^verbatim>\<open>OpenRouterMessage\<close> of the client, and the request that \<^verbatim>\<open>fetch\<close> is given.\<close>

record OpenRouterMessage =
  or_role :: role
  or_content :: json

record request_body =
  body_model :: string
  body_messages :: "OpenRouterMessage list"
  body_stream :: bool
  body_temperature :: string
  body_max_tokens :: nat

record http_request =
  url :: string
  http_method :: string
  Authorization :: string
  Content_Type :: string
  HTTP_Referer :: string
  X_Title :: string
  body :: request_body

text \<open>
  What one \<^verbatim>\<open>reader.read()\<close> of the upstream body resolves to: a chunk (already decoded
  to text), the end of the channel, or a rejection.
\<close>

datatype read_result = RValue string | RDone | RError error

text \<open>
  A response as the client uses it: the status line, what \<^verbatim>\<open>text()\<close> and \<^verbatim>\<open>json()\<close>
  resolve to, and \<^verbatim>\<open>body\<close>: \<^verbatim>\<open>null\<close>, or a stream given by the results of its successive
  reads. The list is a finite observation of the stream: a read past its end is still
  pending.
\<close>

record http_response =
  status :: nat
  statusText :: string
  text_result :: "error + string"
  json_result :: "error + json"
  response_body :: "read_result list option"

definition ok :: "http_response \<Rightarrow> bool" where
  "ok r \<longleftrightarrow> 200 \<le> status r \<and> status r \<le> 299"

datatype console_entry =
    Log_request string string nat bool
  | Error_api nat string string
  | Error_stream error
  | Warn_no_key

section \<open>Environment and state\<close>

text \<open>
  Everything the code takes from outside its own source: \<^verbatim>\<open>JSON.parse\<close>, the constants of
  \<^verbatim>\<open>lib/constants\<close>, the environment variable holding the fallback key, and three
  oracles giving the result of the n-th call of \<^verbatim>\<open>nanoid()\<close>, of \<^verbatim>\<open>Date.now()\<close> and of
  \<^verbatim>\<open>fetch\<close>. Theorems hold for every environment.
\<close>

record env =
  JSON_parse :: "string \<Rightarrow> error + json"
  OPENROUTER_API_BASE_URL :: string
  DEFAULT_MODEL :: string
  SITE_URL :: string
  SITE_NAME :: string
  env_OPENROUTER_API_KEY :: "string option"
  nanoid_src :: "nat \<Rightarrow> string"
  Date_now_src :: "nat \<Rightarrow> int"
  fetch_src :: "nat \<Rightarrow> error + http_response"

text \<open>
  The mutable state. Chats are objects: \<^verbatim>\<open>chatStore\<close> (a JavaScript \<^verbatim>\<open>Map\<close>, kept in
  insertion order) holds references into \<open>heap\<close>, and so do the closures of the stream
  transcoder, so that a \<^verbatim>\<open>push\<close> through one reference is seen through the others.
  \<open>heap_next\<close> is the next fresh reference.
\<close>

record state =
  chatStore :: "(string \<times> nat) list"
  heap :: "nat \<Rightarrow> ChatDetail"
  heap_next :: nat
  nanoid_calls :: nat
  Date_now_calls :: nat
  fetched :: "http_request list"
  console :: "console_entry list"

definition Map_get :: "(string \<times> 'v) list \<Rightarrow> string \<Rightarrow> 'v option" where
  "Map_get m k = map_of m k"

fun Map_set :: "(string \<times> 'v) list \<Rightarrow> string \<Rightarrow> 'v \<Rightarrow> (string \<times> 'v) list" where
  "Map_set [] k v = [(k, v)]"
| "Map_set ((k', v') # m) k v =
     (if k' = k then (k, v) # m else (k', v') # Map_set m k v)"

definition Map_values :: "(string \<times> 'v) list \<Rightarrow> 'v list" where
  "Map_values m = map snd m"

definition nanoid :: "env \<Rightarrow> state \<Rightarrow> string \<times> state" where
  "nanoid E s = (nanoid_src E (nanoid_calls s), s\<lparr>nanoid_calls := Suc (nanoid_calls s)\<rparr>)"

definition Date_now :: "env \<Rightarrow> state \<Rightarrow> int \<times> state" where
  "Date_now E s =
     (Date_now_src E (Date_now_calls s), s\<lparr>Date_now_calls := Suc (Date_now_calls s)\<rparr>)"

definition fetch :: "env \<Rightarrow> http_request \<Rightarrow> state \<Rightarrow> (error + http_response) \<times> state" where
  "fetch E req s = (fetch_src E (length (fetched s)), s\<lparr>fetched := fetched s @ [req]\<rparr>)"

definition new_object :: "ChatDetail \<Rightarrow> state \<Rightarrow> nat \<times> state" where
  "new_object c s =
     (heap_next s, s\<lparr>heap := (heap s)(heap_next s := c), heap_next := Suc (heap_next s)\<rparr>)"

text \<open>\<^verbatim>\<open>chat.messages.push(m)\<close> and \<^verbatim>\<open>chat.updated_at = t\<close>, through the reference.\<close>

definition push_message :: "nat \<Rightarrow> ChatMessage \<Rightarrow> state \<Rightarrow> state" where
  "push_message chat m s =
     s\<lparr>heap := (heap s)(chat := (heap s chat)\<lparr>c_messages := c_messages (heap s chat) @ [m]\<rparr>)\<rparr>"

definition set_updated_at :: "nat \<Rightarrow> int \<Rightarrow> state \<Rightarrow> state" where
  "set_updated_at chat t s = s\<lparr>heap := (heap s)(chat := (heap s chat)\<lparr>c_updated_at := t\<rparr>)\<rparr>"

definition chatStore_set :: "string \<Rightarrow> nat \<Rightarrow> state \<Rightarrow> state" where
  "chatStore_set k chat s = s\<lparr>chatStore := Map_set (chatStore s) k chat\<rparr>"

section \<open>The completion client\<close>

text \<open>\<^verbatim>\<open>a || b\<close> on a string that may be absent: the empty string is falsy too.\<close>

definition str_or :: "string option \<Rightarrow> string \<Rightarrow> string" where
  "str_or a b = (case a of None \<Rightarrow> b | Some x \<Rightarrow> if x = [] then b else x)"

record OpenRouterClient =
  this_apiKey :: string
  this_baseURL :: string

text \<open>The constructor (client, lines 47 to 55).\<close>

definition OpenRouterClient_new :: "env \<Rightarrow> string option \<Rightarrow> state \<Rightarrow> OpenRouterClient \<times> state" where
  "OpenRouterClient_new E key s =
     (let k = str_or key (str_or (env_OPENROUTER_API_KEY E) [])
      in (\<lparr>this_apiKey = k, this_baseURL = OPENROUTER_API_BASE_URL E\<rparr>,
          if k = [] \<and> str_or (env_OPENROUTER_API_KEY E) [] = []
          then s\<lparr>console := console s @ [Warn_no_key]\<rparr> else s))"

text \<open>
  \<^verbatim>\<open>const effectiveApiKey = apiKey || this.apiKey\<close> (client, line 100).
\<close>

definition effectiveApiKey :: "OpenRouterClient \<Rightarrow> string option \<Rightarrow> string" where
  "effectiveApiKey this key = str_or key (this_apiKey this)"

datatype completion = Completion json | ByteStream "read_result list option"

text \<open>
  \<^verbatim>\<open>createChatCompletion\<close> (client, lines 66 to 134). Its options object is given as the
  three arguments the adapter passes; \<^verbatim>\<open>temperature\<close> and \<^verbatim>\<open>max_tokens\<close> are never
  passed, so their defaults are what the request carries.
\<close>

definition createChatCompletion ::
  "env \<Rightarrow> OpenRouterClient \<Rightarrow> OpenRouterMessage list \<Rightarrow> string option \<Rightarrow> bool option \<Rightarrow>
   string option \<Rightarrow> state \<Rightarrow> (error + completion) \<times> state" where
  "createChatCompletion E this messages model_opt stream_opt key s =
     (let model = (case model_opt of None \<Rightarrow> DEFAULT_MODEL E | Some m \<Rightarrow> m);
          stream = (case stream_opt of None \<Rightarrow> False | Some b \<Rightarrow> b);
          request = \<lparr>body_model = model, body_messages = messages, body_stream = stream,
                     body_temperature = ''0.7'', body_max_tokens = 4000\<rparr>;
          s1 = s\<lparr>console := console s @
                  [Log_request (this_baseURL this @ ''/chat/completions'') model
                     (length messages) stream]\<rparr>
      in if effectiveApiKey this key = []
         then (Inl (Error ''OpenRouter API key is required. Please configure an API key in settings.''), s1)
         else
           (case fetch E
                   \<lparr>url = this_baseURL this @ ''/chat/completions'', http_method = ''POST'',
                    Authorization = ''Bearer '' @ effectiveApiKey this key,
                    Content_Type = ''application/json'', HTTP_Referer = SITE_URL E,
                    X_Title = SITE_NAME E, body = request\<rparr> s1 of
              (Inl e, s2) \<Rightarrow> (Inl e, s2)
            | (Inr response, s2) \<Rightarrow>
                if \<not> ok response then
                  (case text_result response of
                     Inl e \<Rightarrow> (Inl e, s2)
                   | Inr errorText \<Rightarrow>
                       (Inl (Error (''OpenRouter API error: '' @ decimal (status response) @ '' ''
                                     @ statusText response)),
                        s2\<lparr>console := console s2 @
                             [Error_api (status response) (statusText response) errorText]\<rparr>))
                else if stream then (Inr (ByteStream (response_body response)), s2)
                else
                  (case json_result response of
                     Inl e \<Rightarrow> (Inl e, s2)
                   | Inr j \<Rightarrow> (Inr (Completion j), s2))))"

section \<open>The stream transcoder\<close>

text \<open>
  The outbound stream carries \<^verbatim>\<open>data: <json>\<close> frames; a frame is modelled by the object
  that was serialised into it, tagged by its \<^verbatim>\<open>type\<close>. \<^verbatim>\<open>JSON.stringify\<close> copies the chat
  as it is at that moment, so \<open>ChatComplete\<close> carries a value, not a reference.
\<close>

datatype event =
    MessageDelta (delta_text: json) (delta_messageId: string)
  | ChatComplete ChatDetail

datatype controller_state = Readable | Closed | Errored error

text \<open>
  The closure of \<^verbatim>\<open>start\<close> in \<^verbatim>\<open>transformStreamToV0Format\<close>: the reader (the results its
  reads will give), the chat reference, the two locals, and the outbound controller: what
  has been enqueued and whether the stream is readable, closed or errored.
\<close>

record transcoder =
  reader :: "read_result list"
  chat :: nat
  assistantMessage :: string
  assistantMessageId :: string
  enqueued :: "event list"
  controller :: controller_state

text \<open>
  \<^verbatim>\<open>transformStreamToV0Format\<close> up to the first \<^verbatim>\<open>await\<close> (adapter, lines 188 to 201):
  \<^verbatim>\<open>getReader()\<close> fails on a \<^verbatim>\<open>null\<close> body; \<^verbatim>\<open>start\<close> runs at once and draws the id of
  the assistant message before the first read.
\<close>

definition transformStreamToV0Format ::
  "env \<Rightarrow> read_result list option \<Rightarrow> nat \<Rightarrow> state \<Rightarrow> (error + transcoder) \<times> state" where
  "transformStreamToV0Format E stream c s =
     (case stream of
        None \<Rightarrow> (Inl (TypeError ''Cannot read properties of null (reading getReader)''), s)
      | Some reads \<Rightarrow>
          (case nanoid E s of
             (mid, s1) \<Rightarrow>
               (Inr \<lparr>reader = reads, chat = c, assistantMessage = [], assistantMessageId = mid,
                     enqueued = [], controller = Readable\<rparr>, s1)))"

text \<open>
  The body of \<^verbatim>\<open>for (const line of lines)\<close> (adapter, lines 233 to 259). Both the
  \<^verbatim>\<open>SyntaxError\<close> of \<^verbatim>\<open>JSON.parse\<close> and the \<^verbatim>\<open>TypeError\<close> of \<^verbatim>\<open>parsed.choices\<close> on \<^verbatim>\<open>null\<close>
  are caught by the inner \<^verbatim>\<open>try\<close>.
\<close>

definition process_line :: "env \<Rightarrow> string \<Rightarrow> transcoder \<Rightarrow> transcoder" where
  "process_line E line t =
     (if startsWith line ''data: '' then
        (let data = drop 6 line
         in if data = ''[DONE]'' then t
            else
              (case JSON_parse E data of
                 Inl e \<Rightarrow> t
               | Inr parsed \<Rightarrow>
                   (case delta_content parsed of
                      Inl e \<Rightarrow> t
                    | Inr None \<Rightarrow> t
                    | Inr (Some content) \<Rightarrow>
                        if truthy (Some content) then
                          t\<lparr>assistantMessage := assistantMessage t @ js_toString content,
                            enqueued := enqueued t @
                              [MessageDelta content (assistantMessageId t)]\<rparr>
                        else t)))
      else t)"

definition process_chunk :: "env \<Rightarrow> string \<Rightarrow> transcoder \<Rightarrow> transcoder" where
  "process_chunk E chunk t = fold (process_line E) (split_lines chunk) t"

text \<open>The \<^verbatim>\<open>if (done)\<close> branch (adapter, lines 203 to 227).\<close>

definition finalize :: "env \<Rightarrow> transcoder \<Rightarrow> state \<Rightarrow> transcoder \<times> state" where
  "finalize E t s =
     (case Date_now E s of
        (created, s1) \<Rightarrow>
          (let finalMessage = \<lparr>m_id = Some (assistantMessageId t), m_role = Assistant,
                               m_content = JString (assistantMessage t),
                               m_created_at = Some created\<rparr>;
               s2 = push_message (chat t) finalMessage s1
           in case Date_now E s2 of
                (updated, s3) \<Rightarrow>
                  (let s4 = set_updated_at (chat t) updated s3;
                       s5 = chatStore_set (c_id (heap s4 (chat t))) (chat t) s4
                   in (t\<lparr>enqueued := enqueued t @ [ChatComplete (heap s5 (chat t))],
                         controller := Closed\<rparr>, s5))))"

text \<open>
  The \<^verbatim>\<open>while (true)\<close> loop of \<^verbatim>\<open>start\<close> (adapter, lines 199 to 265), run over the results
  of the reads. When the results run out the loop is suspended in a read that has not
  resolved: nothing changes and the outbound stream stays readable. A rejected read is
  caught by the outer \<^verbatim>\<open>try\<close>, which logs it and errors the controller.
\<close>

fun start_loop :: "env \<Rightarrow> read_result list \<Rightarrow> transcoder \<Rightarrow> state \<Rightarrow> transcoder \<times> state" where
  "start_loop E [] t s = (t, s)"
| "start_loop E (RDone # rest) t s = finalize E t s"
| "start_loop E (RError e # rest) t s =
     (t\<lparr>controller := Errored e\<rparr>, s\<lparr>console := console s @ [Error_stream e]\<rparr>)"
| "start_loop E (RValue chunk # rest) t s = start_loop E rest (process_chunk E chunk t) s"

definition start :: "env \<Rightarrow> transcoder \<Rightarrow> state \<Rightarrow> transcoder \<times> state" where
  "start E t s = start_loop E (reader t) t s"

section \<open>The adapter\<close>

definition SYSTEM_PROMPT :: string where
  "SYSTEM_PROMPT = ''You are a helpful AI assistant that can help users build applications, write code, and solve problems. Be concise and practical in your responses.''"

text \<open>\<^verbatim>\<open>content || 'No response generated'\<close>.\<close>

definition or_fallback :: "json option \<Rightarrow> json" where
  "or_fallback c =
     (case c of
        None \<Rightarrow> JString ''No response generated''
      | Some v \<Rightarrow> if truthy (Some v) then v else JString ''No response generated'')"

text \<open>What \<^verbatim>\<open>createChat\<close> and \<^verbatim>\<open>sendMessage\<close> resolve to: a chat object or a stream.\<close>

datatype chat_result = ChatResult nat | StreamResult transcoder

text \<open>
  The tail shared word for word by the synchronous branches of \<^verbatim>\<open>createChat\<close> (lines
  96 to 109) and \<^verbatim>\<open>sendMessage\<close> (lines 161 to 174). The response was cast to \<^verbatim>\<open>any\<close>; the
  object literal draws the id before it reads the content, which may throw.
\<close>

definition sync_tail :: "env \<Rightarrow> completion \<Rightarrow> string \<Rightarrow> nat \<Rightarrow> state \<Rightarrow> (error + chat_result) \<times> state" where
  "sync_tail E response key c s =
     (case nanoid E s of
        (mid, s1) \<Rightarrow>
          (case (case response of
                   Completion j \<Rightarrow> sync_content j
                 | ByteStream b \<Rightarrow> Inl (TypeError ''Cannot read properties of undefined'')) of
             Inl e \<Rightarrow> (Inl e, s1)
           | Inr content \<Rightarrow>
               (case Date_now E s1 of
                  (created, s2) \<Rightarrow>
                    (let newMessage = \<lparr>m_id = Some mid, m_role = Assistant,
                                               m_content = or_fallback content,
                                               m_created_at = Some created\<rparr>;
                         s3 = push_message c newMessage s2
                     in case Date_now E s3 of
                          (updated, s4) \<Rightarrow>
                            (Inr (ChatResult c),
                             chatStore_set key c (set_updated_at c updated s4))))))"

text \<open>The streaming branches (lines 80 to 87 and 146 to 152) after the completion call.\<close>

definition stream_tail :: "env \<Rightarrow> completion \<Rightarrow> nat \<Rightarrow> state \<Rightarrow> (error + chat_result) \<times> state" where
  "stream_tail E response c s =
     (case response of
        Completion j \<Rightarrow> (Inl (TypeError ''stream.getReader is not a function''), s)
      | ByteStream b \<Rightarrow>
          (case transformStreamToV0Format E b c s of
             (Inl e, s1) \<Rightarrow> (Inl e, s1)
           | (Inr t, s1) \<Rightarrow> (Inr (StreamResult t), s1)))"

text \<open>\<^verbatim>\<open>createChat\<close> (adapter, lines 45 to 111).\<close>

definition createChat ::
  "env \<Rightarrow> OpenRouterClient \<Rightarrow> CreateChatOptions \<Rightarrow> state \<Rightarrow> (error + chat_result) \<times> state" where
  "createChat E client options s =
     (case nanoid E s of
        (newId, s1) \<Rightarrow>
     (case Date_now E s1 of
        (timestamp, s2) \<Rightarrow>
     (case nanoid E s2 of
        (uid, s3) \<Rightarrow>
     (let userMessage = \<lparr>m_id = Some uid, m_role = User, m_content = JString (message options),
                          m_created_at = Some timestamp\<rparr>
      in case new_object \<lparr>c_id = newId, c_created_at = timestamp, c_updated_at = timestamp,
                          c_demo = Some True, c_messages = [userMessage]\<rparr> s3 of
        (c, s4) \<Rightarrow>
     (let openRouterMessages =
            [\<lparr>or_role = System, or_content = JString SYSTEM_PROMPT\<rparr>,
             \<lparr>or_role = User, or_content = JString (message options)\<rparr>]
      in if responseMode options = Some Experimental_stream then
           (case createChatCompletion E client openRouterMessages (model options) (Some True)
                   (apiKey options) s4 of
              (Inl e, s5) \<Rightarrow> (Inl e, s5)
            | (Inr response, s5) \<Rightarrow> stream_tail E response c s5)
         else
           (case createChatCompletion E client openRouterMessages (model options) (Some False)
                   (apiKey options) s4 of
              (Inl e, s5) \<Rightarrow> (Inl e, s5)
            | (Inr response, s5) \<Rightarrow> sync_tail E response newId c s5))))))"

text \<open>\<^verbatim>\<open>sendMessage\<close> (adapter, lines 113 to 176).\<close>

definition sendMessage ::
  "env \<Rightarrow> OpenRouterClient \<Rightarrow> SendMessageOptions \<Rightarrow> state \<Rightarrow> (error + chat_result) \<times> state" where
  "sendMessage E client options s =
     (case Map_get (chatStore s) (chatId options) of
        None \<Rightarrow>
          createChat E client
            \<lparr>message = message options,
             responseMode = Some (case responseMode options of None \<Rightarrow> Sync | Some m \<Rightarrow> m),
             model = model options, apiKey = apiKey options\<rparr> s
      | Some c \<Rightarrow>
     (case nanoid E s of
        (uid, s1) \<Rightarrow>
     (case Date_now E s1 of
        (created, s2) \<Rightarrow>
     (let userMessage = \<lparr>m_id = Some uid, m_role = User, m_content = JString (message options),
                          m_created_at = Some created\<rparr>;
          s3 = push_message c userMessage s2;
          openRouterMessages =
            \<lparr>or_role = System, or_content = JString SYSTEM_PROMPT\<rparr> #
            map (\<lambda>msg. \<lparr>or_role = m_role msg, or_content = m_content msg\<rparr>)
              (c_messages (heap s3 c))
      in if responseMode options = Some Experimental_stream then
           (case createChatCompletion E client openRouterMessages (model options) (Some True)
                   (apiKey options) s3 of
              (Inl e, s4) \<Rightarrow> (Inl e, s4)
            | (Inr response, s4) \<Rightarrow> stream_tail E response c s4)
         else
           (case createChatCompletion E client openRouterMessages (model options) (Some False)
                   (apiKey options) s3 of
              (Inl e, s4) \<Rightarrow> (Inl e, s4)
            | (Inr response, s4) \<Rightarrow> sync_tail E response (chatId options) c s4)))))"

text \<open>
  \<^verbatim>\<open>getChat\<close> and \<^verbatim>\<open>listChats\<close> (adapter, lines 178 to 186): the references held by the
  store; \<open>None\<close> is \<^verbatim>\<open>null\<close>.
\<close>

definition getChat :: "state \<Rightarrow> string \<Rightarrow> nat option" where
  "getChat s k = Map_get (chatStore s) k"

definition listChats :: "state \<Rightarrow> nat list" where
  "listChats s = Map_values (chatStore s)"

section \<open>Observations and drivers used by the theorems\<close>

text \<open>The \<^verbatim>\<open>message_delta\<close> frames of an outbound stream, in emission order.\<close>

fun message_deltas :: "event list \<Rightarrow> (json \<times> string) list" where
  "message_deltas [] = []"
| "message_deltas (MessageDelta c i # es) = (c, i) # message_deltas es"
| "message_deltas (ChatComplete d # es) = message_deltas es"

text \<open>The chats carried by its \<^verbatim>\<open>chat_complete\<close> frames.\<close>

fun chat_completes :: "event list \<Rightarrow> ChatDetail list" where
  "chat_completes [] = []"
| "chat_completes (MessageDelta c i # es) = chat_completes es"
| "chat_completes (ChatComplete d # es) = d # chat_completes es"

text \<open>
  A caller that awaits each \<^verbatim>\<open>sendMessage\<close> before it issues the next, and stops at the
  first call that rejects.
\<close>

fun send_all ::
  "env \<Rightarrow> OpenRouterClient \<Rightarrow> SendMessageOptions list \<Rightarrow> state \<Rightarrow>
   (error + chat_result list) \<times> state" where
  "send_all E client [] s = (Inr [], s)"
| "send_all E client (opt # opts) s =
     (case sendMessage E client opt s of
        (Inl e, s1) \<Rightarrow> (Inl e, s1)
      | (Inr r, s1) \<Rightarrow>
          (case send_all E client opts s1 of
             (Inl e, s2) \<Rightarrow> (Inl e, s2)
           | (Inr rs, s2) \<Rightarrow> (Inr (r # rs), s2)))"

section \<open>A concrete environment for the examples\<close>

text \<open>
  A process with or without the fallback key, whose \<^verbatim>\<open>fetch\<close> answers as the given
  oracle says. \<open>demo_parse\<close> parses the four payloads the examples stream and rejects
  everything else.
\<close>

definition delta_json :: "json list \<Rightarrow> json" where
  "delta_json cs =
     JObject [(''choices'', JArray [JObject [(''delta'', JObject (map (Pair ''content'') cs))]])]"

definition demo_parse :: "string \<Rightarrow> error + json" where
  \<open>demo_parse d =
     (if d = ''{"choices":[{"delta":{"content":"Hel"}}]}'' then Inr (delta_json [JString ''Hel''])
      else if d = ''{"choices":[{"delta":{"content":"lo"}}]}'' then Inr (delta_json [JString ''lo''])
      else if d = ''{"choices":[{"delta":{}}]}'' then Inr (delta_json [])
      else if d = ''null'' then Inr JNull
      else Inl (SyntaxError ''Unexpected token''))\<close>

definition demo_env :: "string option \<Rightarrow> (nat \<Rightarrow> error + http_response) \<Rightarrow> env" where
  "demo_env fallback answers =
     \<lparr>JSON_parse = demo_parse, OPENROUTER_API_BASE_URL = ''https://openrouter.ai/api/v1'',
      DEFAULT_MODEL = ''deepseek/deepseek-chat-v3.1:free'',
      SITE_URL = ''http://localhost:3000'', SITE_NAME = ''v0-clone'',
      env_OPENROUTER_API_KEY = fallback,
      nanoid_src = (\<lambda>n. ''id'' @ [''0123456789'' ! n]),
      Date_now_src = (\<lambda>n. 1000 + int n),
      fetch_src = answers\<rparr>"

definition initial :: state where
  "initial =
     \<lparr>chatStore = [],
      heap = (\<lambda>r. \<lparr>c_id = [], c_created_at = 0, c_updated_at = 0, c_demo = None,
                    c_messages = []\<rparr>),
      heap_next = 0, nanoid_calls = 0, Date_now_calls = 0, fetched = [], console = []\<rparr>"

text \<open>The client the adapter's constructor builds: \<^verbatim>\<open>new OpenRouterClient()\<close>.\<close>

definition adapter_client :: "env \<Rightarrow> OpenRouterClient" where
  "adapter_client E = fst (OpenRouterClient_new E None initial)"

definition completion_json :: "string \<Rightarrow> json" where
  "completion_json reply =
     JObject [(''choices'',
       JArray [JObject [(''message'', JObject [(''role'', JString ''assistant''),
                                               (''content'', JString reply)]),
                        (''finish_reason'', JString ''stop'')]])]"

definition json_response :: "json \<Rightarrow> http_response" where
  "json_response j =
     \<lparr>status = 200, statusText = ''OK'', text_result = Inr [], json_result = Inr j,
      response_body = Some [RDone]\<rparr>"

definition stream_response :: "read_result list \<Rightarrow> http_response" where
  "stream_response reads =
     \<lparr>status = 200, statusText = ''OK'', text_result = Inr [],
      json_result = Inl (SyntaxError ''Unexpected token''), response_body = Some reads\<rparr>"

definition error_response :: "nat \<Rightarrow> string \<Rightarrow> string \<Rightarrow> http_response" where
  "error_response code reason text =
     \<lparr>status = code, statusText = reason, text_result = Inr text,
      json_result = Inl (SyntaxError ''Unexpected token''), response_body = Some [RDone]\<rparr>"

definition sync_options :: "string \<Rightarrow> CreateChatOptions" where
  "sync_options text = \<lparr>message = text, responseMode = Some Sync, model = None, apiKey = None\<rparr>"

definition stream_options :: "string \<Rightarrow> CreateChatOptions" where
  "stream_options text =
     \<lparr>message = text, responseMode = Some Experimental_stream, model = None, apiKey = None\<rparr>"

definition to_chat :: "string \<Rightarrow> CreateChatOptions \<Rightarrow> SendMessageOptions" where
  "to_chat k opt =
     \<lparr>message = message opt, responseMode = responseMode opt, model = model opt,
      apiKey = apiKey opt, chatId = k\<rparr>"

text \<open>An upstream record as it is framed on the wire: \<^verbatim>\<open>data: <payload>\n\n\<close>.\<close>

definition sse :: "string \<Rightarrow> string" where
  "sse payload = ''data: '' @ payload @ [CHR 0x0A, CHR 0x0A]"

text \<open>
  Two content records and the sentinel, then the end of the channel; and a stream whose
  second read is rejected.
\<close>

definition hello_reads :: "read_result list" where
  \<open>hello_reads =
     [RValue (sse ''{"choices":[{"delta":{"content":"Hel"}}]}''),
      RValue (sse ''{"choices":[{"delta":{"content":"lo"}}]}'' @ sse ''[DONE]''),
      RDone]\<close>

definition broken_reads :: "read_result list" where
  \<open>broken_reads =
     [RValue (sse ''{"choices":[{"delta":{"content":"Hel"}}]}''),
      RError (Error ''socket hang up'')]\<close>

text \<open>A chunk none of whose lines carries content.\<close>

definition quiet_chunk :: string where
  \<open>quiet_chunk =
     '': keep-alive'' @ [CHR 0x0A] @ sse ''{"choices":[{"delta":{}}]}'' @ sse ''{"choi'' @
     sse ''[DONE]''\<close>

text \<open>
  Environments, with the fallback key \<^verbatim>\<open>sk-env\<close> except for \<open>env_no_key\<close>: \<^verbatim>\<open>fetch\<close>
  answers \<^verbatim>\<open>hi there\<close> to every call; or \<^verbatim>\<open>hi there\<close> to the first call and a given
  response to every later one; or a 401 with a given body text; or a success whose JSON
  body is \<^verbatim>\<open>{}\<close>.
\<close>

definition env_hi :: env where
  "env_hi = demo_env (Some ''sk-env'') (\<lambda>n. Inr (json_response (completion_json ''hi there'')))"

definition env_then :: "http_response \<Rightarrow> env" where
  "env_then later =
     demo_env (Some ''sk-env'')
       (\<lambda>n. if n = 0 then Inr (json_response (completion_json ''hi there'')) else Inr later)"

definition env_status :: "string \<Rightarrow> env" where
  "env_status text =
     demo_env (Some ''sk-env'') (\<lambda>n. Inr (error_response 401 ''Unauthorized'' text))"

definition env_no_key :: env where
  "env_no_key = demo_env None (\<lambda>n. Inr (json_response (completion_json ''hi there'')))"

definition env_no_choices :: env where
  "env_no_choices = demo_env (Some ''sk-env'') (\<lambda>n. Inr (json_response (JObject [])))"

text \<open>The state after \<^verbatim>\<open>createChat({message: 'hello'})\<close> on a fresh adapter.\<close>

definition after_hello :: "env \<Rightarrow> state" where
  "after_hello E = snd (createChat E (adapter_client E) (sync_options ''hello'') initial)"

text \<open>
  The transcoder that \<^verbatim>\<open>transformStreamToV0Format\<close> returns for a stream on that chat (number
  0 on the heap) when the next id is \<^verbatim>\<open>id3\<close>.
\<close>

definition hello_transcoder :: "read_result list \<Rightarrow> transcoder" where
  "hello_transcoder reads =
     \<lparr>reader = reads, chat = 0, assistantMessage = [], assistantMessageId = ''id3'',
      enqueued = [], controller = Readable\<rparr>"

text \<open>
  The second upstream answer is the broken stream, or a success whose JSON body is \<^verbatim>\<open>{}\<close>.
\<close>

definition env_broken :: env where
  "env_broken = env_then (stream_response broken_reads)"

definition env_then_no_choices :: env where
  "env_then_no_choices = env_then (json_response (JObject []))"

text \<open>
  The transcoder of a streamed second turn on the chat \<^verbatim>\<open>id0\<close> over the broken stream (the
  turn's user message took \<^verbatim>\<open>id3\<close>), and two further synchronous turns on that chat.
\<close>

definition broken_transcoder :: transcoder where
  "broken_transcoder =
     \<lparr>reader = broken_reads, chat = 0, assistantMessage = [], assistantMessageId = ''id4'',
      enqueued = [], controller = Readable\<rparr>"

definition two_more :: "SendMessageOptions list" where
  "two_more = [to_chat ''id0'' (sync_options ''one''), to_chat ''id0'' (sync_options ''two'')]"

section \<open>Basic facts\<close>

lemma map_of_Map_set: "map_of (Map_set m k v) = (map_of m)(k \<mapsto> v)"
  by (induction m) (auto simp: fun_eq_iff)

lemma Map_get_Map_set: "Map_get (Map_set m k v) k' = (if k' = k then Some v else Map_get m k')"
  by (simp add: Map_get_def map_of_Map_set)

lemmas state_ops = nanoid_def Date_now_def new_object_def push_message_def set_updated_at_def
  chatStore_set_def

lemmas demo_defs = demo_env_def initial_def adapter_client_def OpenRouterClient_new_def
  str_or_def effectiveApiKey_def json_response_def stream_response_def error_response_def
  sync_options_def stream_options_def to_chat_def ok_def

lemmas stream_eval = start_def hello_transcoder_def hello_reads_def broken_reads_def sse_def
  process_chunk_def process_line_def startsWith_def demo_parse_def delta_json_def
  delta_content_def member_def opt_member_def opt_index0_def demo_env_def env_hi_def

subsection \<open>The completion client\<close>

text \<open>A synchronous completion that succeeds: what is returned, logged and sent.\<close>

lemma createChatCompletion_sync_ok:
  assumes "effectiveApiKey this key \<noteq> []"
      and "fetch_src E (length (fetched s)) = Inr response" and "ok response"
      and "json_result response = Inr j"
  shows "createChatCompletion E this ms mo (Some False) key s =
           (Inr (Completion j),
            s\<lparr>console := console s @ [Log_request (this_baseURL this @ ''/chat/completions'')
                 (case mo of None \<Rightarrow> DEFAULT_MODEL E | Some m \<Rightarrow> m) (length ms) False],
              fetched := fetched s @
                [\<lparr>url = this_baseURL this @ ''/chat/completions'', http_method = ''POST'',
                  Authorization = ''Bearer '' @ effectiveApiKey this key,
                  Content_Type = ''application/json'', HTTP_Referer = SITE_URL E,
                  X_Title = SITE_NAME E,
                  body = \<lparr>body_model = (case mo of None \<Rightarrow> DEFAULT_MODEL E | Some m \<Rightarrow> m),
                           body_messages = ms, body_stream = False,
                           body_temperature = ''0.7'', body_max_tokens = 4000\<rparr>\<rparr>]\<rparr>)"
  using assms
  by (simp add: createChatCompletion_def fetch_def Let_def)

text \<open>Without a credential the call throws after logging, before \<^verbatim>\<open>fetch\<close>.\<close>

lemma createChatCompletion_no_key:
  assumes "effectiveApiKey this key = []"
  shows "createChatCompletion E this ms mo so key s =
           (Inl (Error ''OpenRouter API key is required. Please configure an API key in settings.''),
            s\<lparr>console := console s @ [Log_request (this_baseURL this @ ''/chat/completions'')
                 (case mo of None \<Rightarrow> DEFAULT_MODEL E | Some m \<Rightarrow> m) (length ms)
                 (case so of None \<Rightarrow> False | Some b \<Rightarrow> b)]\<rparr>)"
  using assms by (simp add: createChatCompletion_def Let_def)

text \<open>With a credential exactly one request is sent, whatever the outcome.\<close>

lemma createChatCompletion_sends:
  assumes "effectiveApiKey this key \<noteq> []"
      and "createChatCompletion E this ms mo so key s = (r, s')"
  shows "\<exists>req. fetched s' = fetched s @ [req] \<and>
           Authorization req = ''Bearer '' @ effectiveApiKey this key \<and>
           body_messages (body req) = ms"
  using assms
  by (auto simp: createChatCompletion_def fetch_def Let_def split: if_splits sum.splits prod.splits)

text \<open>A status outside 200 to 299 whose body text can be read.\<close>

lemma createChatCompletion_status:
  assumes "effectiveApiKey this key \<noteq> []"
      and "fetch_src E (length (fetched s)) = Inr response" and "\<not> ok response"
      and "text_result response = Inr errorText"
  shows "createChatCompletion E this ms mo so key s =
           (Inl (Error (''OpenRouter API error: '' @ decimal (status response) @ '' '' @
                        statusText response)),
            s\<lparr>console := console s @ [Log_request (this_baseURL this @ ''/chat/completions'')
                 (case mo of None \<Rightarrow> DEFAULT_MODEL E | Some m \<Rightarrow> m) (length ms)
                 (case so of None \<Rightarrow> False | Some b \<Rightarrow> b),
                 Error_api (status response) (statusText response) errorText],
              fetched := fetched s @
                [\<lparr>url = this_baseURL this @ ''/chat/completions'', http_method = ''POST'',
                  Authorization = ''Bearer '' @ effectiveApiKey this key,
                  Content_Type = ''application/json'', HTTP_Referer = SITE_URL E,
                  X_Title = SITE_NAME E,
                  body = \<lparr>body_model = (case mo of None \<Rightarrow> DEFAULT_MODEL E | Some m \<Rightarrow> m),
                           body_messages = ms,
                           body_stream = (case so of None \<Rightarrow> False | Some b \<Rightarrow> b),
                           body_temperature = ''0.7'', body_max_tokens = 4000\<rparr>\<rparr>]\<rparr>)"
  using assms
  by (simp add: createChatCompletion_def fetch_def Let_def)

text \<open>
  The client never touches the chats: a call that returns has sent one request and
  changed neither the store nor the heap nor the id and clock counters.
\<close>

lemma createChatCompletion_Inr:
  assumes "createChatCompletion E this ms mo so key s = (Inr r, s')"
  shows "chatStore s' = chatStore s \<and> heap s' = heap s \<and> heap_next s' = heap_next s \<and>
         nanoid_calls s' = nanoid_calls s \<and> Date_now_calls s' = Date_now_calls s \<and>
         (\<exists>req. fetched s' = fetched s @ [req] \<and> body_messages (body req) = ms \<and>
            Authorization req = ''Bearer '' @ effectiveApiKey this key)"
  using assms
  by (auto simp: createChatCompletion_def fetch_def Let_def split: if_splits sum.splits prod.splits)

lemma createChatCompletion_frame:
  assumes "createChatCompletion E this ms mo so key s = (r, s')"
  shows "chatStore s' = chatStore s \<and> heap s' = heap s \<and> heap_next s' = heap_next s \<and>
         nanoid_calls s' = nanoid_calls s \<and> Date_now_calls s' = Date_now_calls s"
  using assms
  by (auto simp: createChatCompletion_def fetch_def Let_def split: if_splits sum.splits prod.splits)

text \<open>A streaming call returns a byte stream only, a synchronous call a completion only.\<close>

lemma createChatCompletion_shape:
  assumes "createChatCompletion E this ms mo (Some b) key s = (Inr r, s')"
  shows "if b then \<exists>reads. r = ByteStream reads else \<exists>j. r = Completion j"
  using assms
  by (auto simp: createChatCompletion_def fetch_def Let_def split: if_splits sum.splits prod.splits)

subsection \<open>The adapter\<close>

lemma createChat_mode:
  "createChat E client \<lparr>message = m, responseMode = Some (case r of None \<Rightarrow> Sync | Some x \<Rightarrow> x),
      model = mo, apiKey = k\<rparr> s =
   createChat E client \<lparr>message = m, responseMode = r, model = mo, apiKey = k\<rparr> s"
  by (cases r) (auto simp: createChat_def split: responseMode.splits)

lemma sync_tail_fetched:
  "sync_tail E response k c s = (r, s') \<Longrightarrow> fetched s' = fetched s"
  by (auto simp: sync_tail_def state_ops Let_def split: sum.splits completion.splits)

lemma stream_tail_fetched:
  "stream_tail E response c s = (r, s') \<Longrightarrow> fetched s' = fetched s"
  by (auto simp: stream_tail_def transformStreamToV0Format_def state_ops Let_def
      split: sum.splits completion.splits option.splits)

lemma createChat_sends:
  assumes "effectiveApiKey client (apiKey options) \<noteq> []"
      and "createChat E client options s = (r, s')"
  shows "\<exists>req. fetched s' = fetched s @ [req] \<and>
           Authorization req = ''Bearer '' @ effectiveApiKey client (apiKey options) \<and>
           body_messages (body req) =
             [\<lparr>or_role = System, or_content = JString SYSTEM_PROMPT\<rparr>,
              \<lparr>or_role = User, or_content = JString (message options)\<rparr>]"
  using assms(2)
  by (auto simp: createChat_def state_ops Let_def split: prod.splits sum.splits if_splits
           dest!: createChatCompletion_sends [OF assms(1)] sync_tail_fetched stream_tail_fetched)

lemma sync_tail_Inr:
  assumes "sync_tail E response k c s = (Inr r, s')"
  shows "r = ChatResult c \<and> chatStore s' = Map_set (chatStore s) k c \<and>
         fetched s' = fetched s \<and> heap_next s' = heap_next s \<and>
         (\<exists>a. m_role a = Assistant \<and>
            c_messages (heap s' c) = c_messages (heap s c) @ [a] \<and>
            c_id (heap s' c) = c_id (heap s c)) \<and>
         (\<forall>c'. c' \<noteq> c \<longrightarrow> heap s' c' = heap s c')"
  using assms
  by (auto simp: sync_tail_def state_ops Let_def split: sum.splits completion.splits)

text \<open>A synchronous \<^verbatim>\<open>sendMessage\<close> that resolves on a stored chat.\<close>

lemma sendMessage_sync_existing:
  assumes "getChat s (chatId options) = Some c"
      and "responseMode options \<noteq> Some Experimental_stream"
      and "sendMessage E client options s = (Inr r, s')"
  shows "r = ChatResult c \<and> getChat s' (chatId options) = Some c \<and>
         (\<exists>u a. c_messages (heap s' c) = c_messages (heap s c) @ [u, a] \<and>
                 m_role u = User \<and> m_content u = JString (message options) \<and>
                 m_role a = Assistant) \<and>
         (\<exists>req older. fetched s' = fetched s @ [req] \<and>
             body_messages (body req) =
               \<lparr>or_role = System, or_content = JString SYSTEM_PROMPT\<rparr> # older \<and>
             map or_role older = map m_role (c_messages (heap s c)) @ [User])"
  using assms
  by (auto simp: sendMessage_def getChat_def state_ops Let_def Map_get_Map_set comp_def
           split: prod.splits sum.splits if_splits
           dest!: createChatCompletion_Inr sync_tail_Inr)

text \<open>
  A streaming call that resolves returns a transcoder in its initial state. On a stored
  chat, \<^verbatim>\<open>sendMessage\<close> has by then pushed the user message onto the stored object itself;
  \<^verbatim>\<open>createChat\<close> has built a new object that the store does not hold.
\<close>

lemma stream_tail_Inr:
  assumes "stream_tail E response c s = (Inr r, s')"
  shows "\<exists>t. r = StreamResult t \<and> chat t = c \<and> enqueued t = [] \<and> assistantMessage t = [] \<and>
           controller t = Readable \<and> assistantMessageId t = nanoid_src E (nanoid_calls s) \<and>
           response = ByteStream (Some (reader t)) \<and>
           chatStore s' = chatStore s \<and> heap s' = heap s \<and> heap_next s' = heap_next s"
  using assms
  by (auto simp: stream_tail_def transformStreamToV0Format_def state_ops
           split: completion.splits option.splits)

lemma sendMessage_stream_existing:
  assumes "getChat s (chatId options) = Some c"
      and "sendMessage E client options s = (Inr (StreamResult t), s')"
  shows "chat t = c \<and> enqueued t = [] \<and> assistantMessage t = [] \<and> controller t = Readable \<and>
         chatStore s' = chatStore s \<and>
         (\<exists>u. c_messages (heap s' c) = c_messages (heap s c) @ [u] \<and>
              m_role u = User \<and> m_content u = JString (message options))"
  using assms
  by (auto simp: sendMessage_def getChat_def state_ops Let_def
           split: prod.splits sum.splits if_splits
           dest!: createChatCompletion_Inr sync_tail_Inr stream_tail_Inr)

lemma createChat_stream:
  assumes "createChat E client options s = (Inr (StreamResult t), s')"
  shows "chat t = heap_next s \<and> enqueued t = [] \<and> assistantMessage t = [] \<and>
         controller t = Readable \<and> chatStore s' = chatStore s \<and>
         (\<forall>c < heap_next s. heap s' c = heap s c)"
  using assms
  by (auto simp: createChat_def state_ops Let_def
           split: prod.splits sum.splits if_splits
           dest!: createChatCompletion_Inr sync_tail_Inr stream_tail_Inr)

subsection \<open>The transcoder\<close>

lemma message_deltas_append: "message_deltas (xs @ ys) = message_deltas xs @ message_deltas ys"
  by (induction xs rule: message_deltas.induct) auto

lemma chat_completes_append: "chat_completes (xs @ ys) = chat_completes xs @ chat_completes ys"
  by (induction xs rule: chat_completes.induct) auto

lemma message_deltas_map: "message_deltas (map (\<lambda>x. MessageDelta x i) ds) = map (\<lambda>x. (x, i)) ds"
  by (induction ds) auto

lemma chat_completes_map: "chat_completes (map (\<lambda>x. MessageDelta x i) ds) = []"
  by (induction ds) auto

text \<open>
  A line changes the transcoder in one way only: it appends fragments \<open>ds\<close> (none or
  one) to the outbound queue, each under the transcoder's message id, and their string
  coercions to the accumulated text.
\<close>

lemma process_line_effect:
  "\<exists>ds. process_line E l t =
          t\<lparr>assistantMessage := assistantMessage t @ concat (map js_toString ds),
            enqueued := enqueued t @ map (\<lambda>x. MessageDelta x (assistantMessageId t)) ds\<rparr>"
proof (cases "process_line E l t = t")
  case True
  then show ?thesis by (intro exI [of _ "[]"]) simp
next
  case False
  then obtain content where
    "process_line E l t =
       t\<lparr>assistantMessage := assistantMessage t @ js_toString content,
         enqueued := enqueued t @ [MessageDelta content (assistantMessageId t)]\<rparr>"
    by (auto simp: process_line_def Let_def split: if_splits sum.splits option.splits)
  then show ?thesis by (intro exI [of _ "[content]"]) simp
qed

text \<open>The same holds of any number of steps of that kind, so of a chunk and of chunks.\<close>

lemma fold_effect:
  fixes f :: "'a \<Rightarrow> transcoder \<Rightarrow> transcoder"
  assumes step: "\<And>a u. \<exists>ds. f a u =
          u\<lparr>assistantMessage := assistantMessage u @ concat (map js_toString ds),
            enqueued := enqueued u @ map (\<lambda>x. MessageDelta x (assistantMessageId u)) ds\<rparr>"
  shows "\<exists>ds. fold f as t =
          t\<lparr>assistantMessage := assistantMessage t @ concat (map js_toString ds),
            enqueued := enqueued t @ map (\<lambda>x. MessageDelta x (assistantMessageId t)) ds\<rparr>"
proof (induction as arbitrary: t)
  case Nil
  show ?case by (intro exI [of _ "[]"]) simp
next
  case (Cons a as)
  obtain d1 where 1: "f a t =
          t\<lparr>assistantMessage := assistantMessage t @ concat (map js_toString d1),
            enqueued := enqueued t @ map (\<lambda>x. MessageDelta x (assistantMessageId t)) d1\<rparr>"
    using step by blast
  obtain d2 where 2: "fold f as (f a t) =
          (f a t)\<lparr>assistantMessage := assistantMessage (f a t) @ concat (map js_toString d2),
            enqueued := enqueued (f a t) @
              map (\<lambda>x. MessageDelta x (assistantMessageId (f a t))) d2\<rparr>"
    using Cons.IH by blast
  show ?case
    by (intro exI [of _ "d1 @ d2"]) (simp add: 2, simp add: 1)
qed

lemma process_chunk_effect:
  "\<exists>ds. process_chunk E chunk t =
          t\<lparr>assistantMessage := assistantMessage t @ concat (map js_toString ds),
            enqueued := enqueued t @ map (\<lambda>x. MessageDelta x (assistantMessageId t)) ds\<rparr>"
  unfolding process_chunk_def by (rule fold_effect) (rule process_line_effect)

lemma process_chunks_effect:
  "\<exists>ds. fold (process_chunk E) chunks t =
          t\<lparr>assistantMessage := assistantMessage t @ concat (map js_toString ds),
            enqueued := enqueued t @ map (\<lambda>x. MessageDelta x (assistantMessageId t)) ds\<rparr>"
  by (rule fold_effect) (rule process_chunk_effect)

lemma start_loop_values:
  "start_loop E (map RValue chunks @ rest) t s =
     start_loop E rest (fold (process_chunk E) chunks t) s"
  by (induction chunks arbitrary: t) auto

lemma finalize_effect:
  assumes "finalize E t s = (t', s')"
  shows "\<exists>final. t' = t\<lparr>enqueued := enqueued t @ [ChatComplete (heap s' (chat t))],
                          controller := Closed\<rparr> \<and>
           c_messages (heap s' (chat t)) = c_messages (heap s (chat t)) @ [final] \<and>
           m_id final = Some (assistantMessageId t) \<and> m_role final = Assistant \<and>
           m_content final = JString (assistantMessage t) \<and>
           chatStore s' = Map_set (chatStore s) (c_id (heap s (chat t))) (chat t)"
  using assms
  by (auto simp: finalize_def state_ops Let_def split: prod.splits)

text \<open>Chunks and then the end of the channel: the fragments, then one \<^verbatim>\<open>chat_complete\<close>.\<close>

lemma start_loop_done:
  assumes "start_loop E (map RValue chunks @ RDone # rest) t s = (t', s')"
  shows "\<exists>ds final.
           enqueued t' = enqueued t @ map (\<lambda>x. MessageDelta x (assistantMessageId t)) ds @
                           [ChatComplete (heap s' (chat t))] \<and>
           controller t' = Closed \<and>
           c_messages (heap s' (chat t)) = c_messages (heap s (chat t)) @ [final] \<and>
           m_id final = Some (assistantMessageId t) \<and> m_role final = Assistant \<and>
           m_content final = JString (assistantMessage t @ concat (map js_toString ds)) \<and>
           chatStore s' = Map_set (chatStore s) (c_id (heap s (chat t))) (chat t)"
proof -
  obtain ds where ds: "fold (process_chunk E) chunks t =
          t\<lparr>assistantMessage := assistantMessage t @ concat (map js_toString ds),
            enqueued := enqueued t @ map (\<lambda>x. MessageDelta x (assistantMessageId t)) ds\<rparr>"
    using process_chunks_effect by blast
  have "finalize E (fold (process_chunk E) chunks t) s = (t', s')"
    using assms by (simp add: start_loop_values)
  from finalize_effect [OF this] show ?thesis
    by (simp add: ds) blast
qed

text \<open>Chunks and then a rejected read.\<close>

lemma start_loop_error:
  "start_loop E (map RValue chunks @ RError e # rest) t s =
     ((fold (process_chunk E) chunks t)\<lparr>controller := Errored e\<rparr>,
      s\<lparr>console := console s @ [Error_stream e]\<rparr>)"
  by (simp add: start_loop_values)

text \<open>As long as the channel has not ended, only fragments are enqueued.\<close>

lemma start_loop_no_done:
  assumes "RDone \<notin> set reads"
  shows "\<exists>ds. enqueued (fst (start_loop E reads t s)) =
           enqueued t @ map (\<lambda>x. MessageDelta x (assistantMessageId t)) ds"
  using assms
proof (induction reads arbitrary: t)
  case Nil
  show ?case by (intro exI [of _ "[]"]) simp
next
  case (Cons r reads)
  show ?case
  proof (cases r)
    case (RValue chunk)
    obtain d1 where 1: "process_chunk E chunk t =
          t\<lparr>assistantMessage := assistantMessage t @ concat (map js_toString d1),
            enqueued := enqueued t @ map (\<lambda>x. MessageDelta x (assistantMessageId t)) d1\<rparr>"
      using process_chunk_effect by blast
    obtain d2 where 2: "enqueued (fst (start_loop E reads (process_chunk E chunk t) s)) =
           enqueued (process_chunk E chunk t) @
             map (\<lambda>x. MessageDelta x (assistantMessageId (process_chunk E chunk t))) d2"
      using Cons by fastforce
    show ?thesis
      by (intro exI [of _ "d1 @ d2"]) (simp add: RValue 2, simp add: 1)
  next
    case RDone
    with Cons.prems show ?thesis by simp
  next
    case (RError e)
    show ?thesis by (intro exI [of _ "[]"]) (simp add: RError)
  qed
qed

text \<open>What \<^verbatim>\<open>transformStreamToV0Format\<close> returns is a transcoder in its initial state.\<close>

lemma transform_initial:
  assumes "transformStreamToV0Format E stream c s0 = (Inr t, s1)"
  shows "enqueued t = [] \<and> assistantMessage t = [] \<and> chat t = c \<and> controller t = Readable \<and>
         stream = Some (reader t) \<and> assistantMessageId t = nanoid_src E (nanoid_calls s0) \<and>
         s1 = s0\<lparr>nanoid_calls := Suc (nanoid_calls s0)\<rparr>"
  using assms
  by (auto simp: transformStreamToV0Format_def nanoid_def split: option.splits)

subsection \<open>Calls that resolve, calls that throw\<close>

text \<open>A synchronous \<^verbatim>\<open>createChat\<close> that succeeds, in full.\<close>

lemma createChat_sync_ok:
  assumes "responseMode options \<noteq> Some Experimental_stream"
      and "effectiveApiKey client (apiKey options) \<noteq> []"
      and "fetch_src E (length (fetched s)) = Inr response" and "ok response"
      and "json_result response = Inr j" and "sync_content j = Inr content"
  shows "\<exists>s'. createChat E client options s = (Inr (ChatResult (heap_next s)), s') \<and>
           chatStore s' = Map_set (chatStore s) (nanoid_src E (nanoid_calls s)) (heap_next s) \<and>
           heap s' = (heap s)(heap_next s :=
             \<lparr>c_id = nanoid_src E (nanoid_calls s),
              c_created_at = Date_now_src E (Date_now_calls s),
              c_updated_at = Date_now_src E (Suc (Suc (Date_now_calls s))),
              c_demo = Some True,
              c_messages =
                [\<lparr>m_id = Some (nanoid_src E (Suc (nanoid_calls s))), m_role = User,
                  m_content = JString (message options),
                  m_created_at = Some (Date_now_src E (Date_now_calls s))\<rparr>,
                 \<lparr>m_id = Some (nanoid_src E (Suc (Suc (nanoid_calls s)))), m_role = Assistant,
                  m_content = or_fallback content,
                  m_created_at = Some (Date_now_src E (Suc (Date_now_calls s)))\<rparr>]\<rparr>) \<and>
           heap_next s' = Suc (heap_next s) \<and>
           nanoid_calls s' = nanoid_calls s + 3 \<and> Date_now_calls s' = Date_now_calls s + 3 \<and>
           length (fetched s') = Suc (length (fetched s))"
  using assms
  by (simp add: createChat_def state_ops sync_tail_def createChatCompletion_sync_ok Let_def)

text \<open>A streaming completion that succeeds hands over the body of the response.\<close>

lemma createChatCompletion_stream_ok:
  assumes "effectiveApiKey this key \<noteq> []"
      and "fetch_src E (length (fetched s)) = Inr response" and "ok response"
  shows "\<exists>s'. createChatCompletion E this ms mo (Some True) key s =
           (Inr (ByteStream (response_body response)), s') \<and>
         chatStore s' = chatStore s \<and> heap s' = heap s \<and> heap_next s' = heap_next s \<and>
         nanoid_calls s' = nanoid_calls s \<and> Date_now_calls s' = Date_now_calls s"
  using assms
  by (simp add: createChatCompletion_def fetch_def Let_def)

lemma sendMessage_stream_ok:
  assumes "getChat s (chatId options) = Some c"
      and "responseMode options = Some Experimental_stream"
      and "effectiveApiKey client (apiKey options) \<noteq> []"
      and "fetch_src E (length (fetched s)) = Inr response" and "ok response"
      and "response_body response = Some reads"
  shows "fst (sendMessage E client options s) =
           Inr (StreamResult
             \<lparr>reader = reads, chat = c, assistantMessage = [],
              assistantMessageId = nanoid_src E (Suc (nanoid_calls s)),
              enqueued = [], controller = Readable\<rparr>)"
proof -
  let ?s3 = "push_message c
               \<lparr>m_id = Some (nanoid_src E (nanoid_calls s)), m_role = User,
                m_content = JString (message options),
                m_created_at = Some (Date_now_src E (Date_now_calls s))\<rparr>
               (s\<lparr>nanoid_calls := Suc (nanoid_calls s), Date_now_calls := Suc (Date_now_calls s)\<rparr>)"
  let ?ms = "\<lparr>or_role = System, or_content = JString SYSTEM_PROMPT\<rparr> #
             map (\<lambda>msg. \<lparr>or_role = m_role msg, or_content = m_content msg\<rparr>)
               (c_messages (heap ?s3 c))"
  have "fetch_src E (length (fetched ?s3)) = Inr response"
    using assms(4) by (simp add: push_message_def)
  from createChatCompletion_stream_ok [OF assms(3) this assms(5), of ?ms "model options"]
  obtain s4 where call: "createChatCompletion E client ?ms (model options) (Some True)
       (apiKey options) ?s3 = (Inr (ByteStream (response_body response)), s4)"
    and calls: "nanoid_calls s4 = nanoid_calls ?s3"
    by blast
  show ?thesis
    using assms(1,2,6) call calls
    by (simp add: sendMessage_def getChat_def state_ops Let_def stream_tail_def
          transformStreamToV0Format_def)
qed

text \<open>A synchronous \<^verbatim>\<open>sendMessage\<close> on a stored chat resolves when the completion does.\<close>

lemma sendMessage_sync_ok:
  assumes "getChat s (chatId options) = Some c"
      and "responseMode options \<noteq> Some Experimental_stream"
      and "effectiveApiKey client (apiKey options) \<noteq> []"
      and "fetch_src E (length (fetched s)) = Inr response" and "ok response"
      and "json_result response = Inr j" and "sync_content j = Inr content"
  shows "\<exists>s'. sendMessage E client options s = (Inr (ChatResult c), s')"
proof -
  let ?s3 = "push_message c
               \<lparr>m_id = Some (nanoid_src E (nanoid_calls s)), m_role = User,
                m_content = JString (message options),
                m_created_at = Some (Date_now_src E (Date_now_calls s))\<rparr>
               (s\<lparr>nanoid_calls := Suc (nanoid_calls s), Date_now_calls := Suc (Date_now_calls s)\<rparr>)"
  have "fetch_src E (length (fetched ?s3)) = Inr response"
    using assms(4) by (simp add: push_message_def)
  from createChatCompletion_sync_ok [OF assms(3) this assms(5,6)]
  show ?thesis
    using assms(1,2,7)
    by (simp add: sendMessage_def getChat_def state_ops Let_def sync_tail_def)
qed

text \<open>
  Reading \<^verbatim>\<open>response.choices[0]\<close>: it throws when the body has no \<^verbatim>\<open>choices\<close> property and
  never when \<^verbatim>\<open>choices\<close> is an array. With an empty array, an element without \<^verbatim>\<open>message\<close>,
  a message without \<^verbatim>\<open>content\<close> or an empty content, the stored text is the fallback.
\<close>

lemma sync_content_missing_choices:
  assumes "j \<noteq> JNull" and "get_prop j ''choices'' = None"
  shows "sync_content j = Inl (TypeError ''Cannot read properties of undefined'')"
  using assms by (cases j) (simp_all add: sync_content_def member_def index0_def)

lemma sync_content_array:
  assumes "get_prop j ''choices'' = Some (JArray choices)"
  shows "\<exists>content. sync_content j = Inr content"
  using assms by (cases j) (auto simp: sync_content_def member_def index0_def)

lemma sync_fallback_cases:
  "sync_content (JObject [(''choices'', JArray [])]) = Inr None"
  "sync_content (JObject [(''choices'', JArray [JObject []])]) = Inr None"
  "sync_content (JObject [(''choices'', JArray [JObject [(''message'', JObject [])]])]) = Inr None"
  "sync_content (JObject [(''choices'',
     JArray [JObject [(''message'', JObject [(''content'', JString [])])]])]) =
     Inr (Some (JString []))"
  "or_fallback None = JString ''No response generated''"
  "or_fallback (Some (JString [])) = JString ''No response generated''"
  by (simp_all add: sync_content_def member_def index0_def opt_member_def or_fallback_def)

text \<open>When the read throws, so does the call; the store is not written.\<close>

lemma createChat_sync_throws:
  assumes "responseMode options \<noteq> Some Experimental_stream"
      and "effectiveApiKey client (apiKey options) \<noteq> []"
      and "fetch_src E (length (fetched s)) = Inr response" and "ok response"
      and "json_result response = Inr j" and "sync_content j = Inl e"
  shows "\<exists>s'. createChat E client options s = (Inl e, s') \<and> chatStore s' = chatStore s"
  using assms
  by (simp add: createChat_def state_ops sync_tail_def createChatCompletion_sync_ok Let_def)

lemma sendMessage_sync_throws:
  assumes "getChat s (chatId options) = Some c"
      and "responseMode options \<noteq> Some Experimental_stream"
      and "effectiveApiKey client (apiKey options) \<noteq> []"
      and "fetch_src E (length (fetched s)) = Inr response" and "ok response"
      and "json_result response = Inr j" and "sync_content j = Inl e"
  shows "\<exists>s'. sendMessage E client options s = (Inl e, s') \<and> chatStore s' = chatStore s"
proof -
  let ?s3 = "push_message c
               \<lparr>m_id = Some (nanoid_src E (nanoid_calls s)), m_role = User,
                m_content = JString (message options),
                m_created_at = Some (Date_now_src E (Date_now_calls s))\<rparr>
               (s\<lparr>nanoid_calls := Suc (nanoid_calls s), Date_now_calls := Suc (Date_now_calls s)\<rparr>)"
  have "fetch_src E (length (fetched ?s3)) = Inr response"
    using assms(4) by (simp add: push_message_def)
  from createChatCompletion_sync_ok [OF assms(3) this assms(5,6)]
  show ?thesis
    using assms(1,2,7)
    by (simp add: sendMessage_def getChat_def state_ops Let_def sync_tail_def)
qed

subsection \<open>Sequences of turns\<close>

text \<open>
  Synchronous calls on one stored chat, all resolving: each appends a user message and an
  assistant message to the stored chat and sends one request headed by the system
  prompt.
\<close>

lemma send_all_appends:
  assumes "getChat s k = Some c"
      and "\<forall>opt \<in> set opts. chatId opt = k \<and> responseMode opt \<noteq> Some Experimental_stream"
      and "send_all E client opts s = (Inr rs, s')"
  shows "getChat s' k = Some c \<and> rs = replicate (length opts) (ChatResult c) \<and>
         (\<exists>new. c_messages (heap s' c) = c_messages (heap s c) @ new \<and>
            map m_role new = concat (replicate (length opts) [User, Assistant]) \<and>
            map m_content (filter (\<lambda>m. m_role m = User) new) =
              map (\<lambda>opt. JString (message opt)) opts) \<and>
         (\<exists>reqs. fetched s' = fetched s @ reqs \<and> length reqs = length opts \<and>
            (\<forall>req \<in> set reqs. \<exists>older. body_messages (body req) =
               \<lparr>or_role = System, or_content = JString SYSTEM_PROMPT\<rparr> # older))"
  using assms
proof (induction opts arbitrary: s rs)
  case Nil
  then show ?case by simp
next
  case (Cons opt opts)
  from Cons.prems(3) obtain r s1 rs' where
    first: "sendMessage E client opt s = (Inr r, s1)" and
    others: "send_all E client opts s1 = (Inr rs', s')" and rs: "rs = r # rs'"
    by (auto split: prod.splits sum.splits)
  from Cons.prems(2) have opt: "chatId opt = k" "responseMode opt \<noteq> Some Experimental_stream"
    and opts: "\<forall>opt \<in> set opts. chatId opt = k \<and> responseMode opt \<noteq> Some Experimental_stream"
    by auto
  from sendMessage_sync_existing [OF _ opt(2) first] Cons.prems(1) opt(1)
  obtain u a req older where
    r: "r = ChatResult c" and stored: "getChat s1 k = Some c" and
    msgs: "c_messages (heap s1 c) = c_messages (heap s c) @ [u, a]"
          "m_role u = User" "m_content u = JString (message opt)" "m_role a = Assistant" and
    sent: "fetched s1 = fetched s @ [req]"
          "body_messages (body req) = \<lparr>or_role = System, or_content = JString SYSTEM_PROMPT\<rparr> # older"
    by auto
  from Cons.IH [OF stored opts others] obtain new reqs where
    ih: "getChat s' k = Some c" "rs' = replicate (length opts) (ChatResult c)"
        "c_messages (heap s' c) = c_messages (heap s1 c) @ new"
        "map m_role new = concat (replicate (length opts) [User, Assistant])"
        "map m_content (filter (\<lambda>m. m_role m = User) new) = map (\<lambda>opt. JString (message opt)) opts"
        "fetched s' = fetched s1 @ reqs" "length reqs = length opts"
        "\<forall>req \<in> set reqs.
            \<exists>older. body_messages (body req) =
              \<lparr>or_role = System, or_content = JString SYSTEM_PROMPT\<rparr> # older"
    by auto
  show ?case
    using ih r rs msgs sent
    by (intro conjI exI [of _ "u # a # new"] exI [of _ "req # reqs"]) auto
qed

text \<open>Such a run exists whenever every upstream answer is a readable completion.\<close>

lemma send_all_resolves:
  assumes "getChat s k = Some c"
      and "\<forall>opt \<in> set opts. chatId opt = k \<and> responseMode opt \<noteq> Some Experimental_stream \<and>
             effectiveApiKey client (apiKey opt) \<noteq> []"
      and "\<forall>n. fetch_src E n = Inr response" and "ok response"
      and "json_result response = Inr j" and "sync_content j = Inr content"
  shows "\<exists>rs s'. send_all E client opts s = (Inr rs, s')"
  using assms(1,2)
proof (induction opts arbitrary: s)
  case Nil
  show ?case by simp
next
  case (Cons opt opts)
  then have opt: "chatId opt = k" "responseMode opt \<noteq> Some Experimental_stream"
      "effectiveApiKey client (apiKey opt) \<noteq> []"
    by auto
  from Cons.prems(1) opt(1) have "getChat s (chatId opt) = Some c" by simp
  from sendMessage_sync_ok [OF this opt(2,3) assms(3) [rule_format] assms(4,5,6)]
  obtain s1 where first: "sendMessage E client opt s = (Inr (ChatResult c), s1)"
    by blast
  from sendMessage_sync_existing [OF \<open>getChat s (chatId opt) = Some c\<close> opt(2) first] opt(1)
  have "getChat s1 k = Some c" by simp
  from Cons.IH [OF this] Cons.prems(2)
  obtain rs s' where "send_all E client opts s1 = (Inr rs, s')"
    by auto
  with first show ?case by simp
qed

subsection \<open>A rejected read\<close>

lemma start_error_effect:
  assumes "reader t = map RValue chunks @ RError e # rest"
      and "chat_completes (enqueued t) = []"
      and "start E t s = (t', s')"
  shows "controller t' = Errored e \<and> chat_completes (enqueued t') = [] \<and>
         chatStore s' = chatStore s \<and> heap s' = heap s \<and> heap_next s' = heap_next s"
proof -
  obtain ds where ds: "fold (process_chunk E) chunks t =
          t\<lparr>assistantMessage := assistantMessage t @ concat (map js_toString ds),
            enqueued := enqueued t @ map (\<lambda>x. MessageDelta x (assistantMessageId t)) ds\<rparr>"
    using process_chunks_effect by blast
  show ?thesis
    using assms by (auto simp: start_def start_loop_error ds chat_completes_append chat_completes_map)
qed

subsection \<open>The running example\<close>

lemma sync_content_completion_json:
  "sync_content (completion_json reply) = Inr (Some (JString reply))"
  by (simp add: sync_content_def completion_json_def member_def index0_def opt_member_def)

text \<open>
  After \<^verbatim>\<open>createChat({message: 'hello'})\<close> on a fresh adapter whose first upstream answer is
  \<^verbatim>\<open>hi there\<close>: one stored chat, \<^verbatim>\<open>id0\<close>, at reference 0, with the two messages.
\<close>

lemma after_hello_fields:
  assumes "answers 0 = Inr (json_response (completion_json ''hi there''))"
  shows "fst (createChat (demo_env (Some ''sk-env'') answers)
                (adapter_client (demo_env (Some ''sk-env'') answers)) (sync_options ''hello'')
                initial) = Inr (ChatResult 0) \<and>
         chatStore (after_hello (demo_env (Some ''sk-env'') answers)) = [(''id0'', 0)] \<and>
         heap (after_hello (demo_env (Some ''sk-env'') answers)) 0 =
           \<lparr>c_id = ''id0'', c_created_at = 1000, c_updated_at = 1002, c_demo = Some True,
            c_messages =
              [\<lparr>m_id = Some ''id1'', m_role = User, m_content = JString ''hello'',
                m_created_at = Some 1000\<rparr>,
               \<lparr>m_id = Some ''id2'', m_role = Assistant, m_content = JString ''hi there'',
                m_created_at = Some 1001\<rparr>]\<rparr> \<and>
         heap_next (after_hello (demo_env (Some ''sk-env'') answers)) = 1 \<and>
         nanoid_calls (after_hello (demo_env (Some ''sk-env'') answers)) = 3 \<and>
         Date_now_calls (after_hello (demo_env (Some ''sk-env'') answers)) = 3 \<and>
         length (fetched (after_hello (demo_env (Some ''sk-env'') answers))) = 1"
proof -
  let ?E = "demo_env (Some ''sk-env'') answers"
  have mode: "responseMode (sync_options ''hello'') \<noteq> Some Experimental_stream"
    by (simp add: sync_options_def)
  have key: "effectiveApiKey (adapter_client ?E) (apiKey (sync_options ''hello'')) \<noteq> []"
    by (simp add: demo_defs)
  have answer: "fetch_src ?E (length (fetched initial)) =
                  Inr (json_response (completion_json ''hi there''))"
    using assms by (simp add: demo_env_def initial_def)
  have ok: "ok (json_response (completion_json ''hi there''))"
    by (simp add: ok_def json_response_def)
  have body: "json_result (json_response (completion_json ''hi there'')) =
                Inr (completion_json ''hi there'')"
    by (simp add: json_response_def)
  from createChat_sync_ok [OF mode key answer ok body sync_content_completion_json]
  show ?thesis
    unfolding after_hello_def
    by (auto simp: or_fallback_def demo_env_def initial_def sync_options_def eval_nat_numeral)
qed

lemma after_hello_then:
  "chatStore (after_hello (env_then later)) = [(''id0'', 0)] \<and>
   map m_role (c_messages (heap (after_hello (env_then later)) 0)) = [User, Assistant] \<and>
   nanoid_calls (after_hello (env_then later)) = 3 \<and>
   length (fetched (after_hello (env_then later))) = 1"
  unfolding env_then_def by (simp add: after_hello_fields)

lemma decimal_401: "decimal 401 = ''401''"
  by code_simp

text \<open>The two content records of the example stream, and its shape.\<close>

lemma hello_deltas:
  "message_deltas (enqueued (fst (start env_hi (hello_transcoder hello_reads) s))) =
     [(JString ''Hel'', ''id3''), (JString ''lo'', ''id3'')]"
  by (simp add: stream_eval finalize_def state_ops Let_def split: prod.splits)

lemma hello_reads_shape:
  "\<exists>c1 c2. reader (hello_transcoder hello_reads) = map RValue [c1, c2] @ RDone # []"
  by (simp add: hello_transcoder_def hello_reads_def)

lemma quiet_lines:
  \<open>split_lines quiet_chunk =
     ['': keep-alive'', ''data: {"choices":[{"delta":{}}]}'', [], ''data: {"choi'', [],
      ''data: [DONE]'', [], []]\<close>
  by (simp add: quiet_chunk_def sse_def)

text \<open>The streamed second turn over the broken stream, and two resolving turns.\<close>

lemma broken_turn:
  "fst (sendMessage env_broken (adapter_client env_broken) (to_chat ''id0'' (stream_options ''more''))
          (after_hello env_broken)) = Inr (StreamResult broken_transcoder)"
proof -
  let ?s = "after_hello env_broken"
  note fields = after_hello_then [of "stream_response broken_reads", folded env_broken_def]
  have stored: "getChat ?s (chatId (to_chat ''id0'' (stream_options ''more''))) = Some 0"
    by (simp add: getChat_def Map_get_def fields to_chat_def)
  have mode: "responseMode (to_chat ''id0'' (stream_options ''more'')) = Some Experimental_stream"
    by (simp add: to_chat_def stream_options_def)
  have key: "effectiveApiKey (adapter_client env_broken)
               (apiKey (to_chat ''id0'' (stream_options ''more''))) \<noteq> []"
    by (simp add: env_broken_def env_then_def demo_defs)
  have answer: "fetch_src env_broken (length (fetched ?s)) = Inr (stream_response broken_reads)"
    by (simp add: fields) (simp add: env_broken_def env_then_def demo_env_def)
  have ok: "ok (stream_response broken_reads)"
    by (simp add: ok_def stream_response_def)
  have stream: "response_body (stream_response broken_reads) = Some broken_reads"
    by (simp add: stream_response_def)
  have id: "nanoid_src env_broken (Suc (nanoid_calls ?s)) = ''id4''"
    by (simp add: fields) (simp add: env_broken_def env_then_def demo_env_def)
  show ?thesis
    using sendMessage_stream_ok [OF stored mode key answer ok stream]
    by (simp add: id broken_transcoder_def)
qed

lemma broken_reads_shape:
  "\<exists>c1. reader broken_transcoder = map RValue [c1] @ RError (Error ''socket hang up'') # []"
  by (simp add: broken_transcoder_def broken_reads_def)

lemma hi_resolves:
  assumes "\<forall>opt \<in> set opts. opt \<in> set two_more"
  shows "\<exists>rs s'. send_all env_hi (adapter_client env_hi) opts (after_hello env_hi) = (Inr rs, s')"
proof -
  have stored: "getChat (after_hello env_hi) ''id0'' = Some 0"
    unfolding env_hi_def by (simp add: getChat_def Map_get_def after_hello_fields)
  have opts: "\<forall>opt \<in> set opts. chatId opt = ''id0'' \<and>
                responseMode opt \<noteq> Some Experimental_stream \<and>
                effectiveApiKey (adapter_client env_hi) (apiKey opt) \<noteq> []"
    using assms by (auto simp: two_more_def env_hi_def demo_defs)
  have answers: "\<forall>n. fetch_src env_hi n = Inr (json_response (completion_json ''hi there''))"
    by (simp add: env_hi_def demo_env_def)
  have ok: "ok (json_response (completion_json ''hi there''))"
    by (simp add: ok_def json_response_def)
  have body: "json_result (json_response (completion_json ''hi there'')) =
                Inr (completion_json ''hi there'')"
    by (simp add: json_response_def)
  show ?thesis
    by (rule send_all_resolves [OF stored opts answers ok body sync_content_completion_json])
qed

section \<open>C1: a synchronous createChat returns the stored two-message chat\<close>

text \<open>
  Claim C1. For every message text (in particular every non-empty one), a synchronous
  \<^verbatim>\<open>createChat\<close> whose completion call succeeds (a credential is available, the upstream
  answers with a success status and a JSON body in which \<^verbatim>\<open>choices[0]\<close> can be read)
  returns a chat whose first message is the user's text with role \<^verbatim>\<open>user\<close> and whose last
  message has role \<^verbatim>\<open>assistant\<close>; \<^verbatim>\<open>getChat\<close> with the id of the returned chat yields the
  very same chat object, hence the same messages.
\<close>

theorem createChat_sync_returns_stored_chat:
  assumes "responseMode options \<noteq> Some Experimental_stream"
      and "effectiveApiKey client (apiKey options) \<noteq> []"
      and "fetch_src E (length (fetched s)) = Inr response" and "ok response"
      and "json_result response = Inr j" and "sync_content j = Inr content"
  shows "\<exists>c s' first final.
           createChat E client options s = (Inr (ChatResult c), s') \<and>
           c_messages (heap s' c) = [first, final] \<and>
           m_role first = User \<and> m_content first = JString (message options) \<and>
           m_role final = Assistant \<and> m_content final = or_fallback content \<and>
           c_id (heap s' c) = nanoid_src E (nanoid_calls s) \<and>
           getChat s' (c_id (heap s' c)) = Some c"
  using assms
  by (simp add: createChat_def state_ops sync_tail_def createChatCompletion_sync_ok getChat_def
        Map_get_Map_set Let_def)

text \<open>
  The example of the specification: \<^verbatim>\<open>createChat("hello", sync)\<close> against an upstream
  that answers \<^verbatim>\<open>hi there\<close>.
\<close>

theorem createChat_sync_returns_stored_chat_witness:
  "\<exists>c s'. createChat env_hi (adapter_client env_hi) (sync_options ''hello'') initial =
            (Inr (ChatResult c), s') \<and>
          map (\<lambda>m. (m_role m, m_content m)) (c_messages (heap s' c)) =
            [(User, JString ''hello''), (Assistant, JString ''hi there'')] \<and>
          getChat s' (c_id (heap s' c)) = Some c"
proof -
  have mode: "responseMode (sync_options ''hello'') \<noteq> Some Experimental_stream"
    by (simp add: sync_options_def)
  have key: "effectiveApiKey (adapter_client env_hi) (apiKey (sync_options ''hello'')) \<noteq> []"
    by (simp add: env_hi_def demo_defs)
  have answer: "fetch_src env_hi (length (fetched initial)) =
                  Inr (json_response (completion_json ''hi there''))"
    by (simp add: env_hi_def demo_env_def)
  have ok: "ok (json_response (completion_json ''hi there''))"
    by (simp add: ok_def json_response_def)
  have body: "json_result (json_response (completion_json ''hi there'')) =
                Inr (completion_json ''hi there'')"
    by (simp add: json_response_def)
  show ?thesis
    using createChat_sync_returns_stored_chat
            [OF mode key answer ok body sync_content_completion_json]
    by (auto simp: or_fallback_def sync_options_def)
qed

section \<open>C2: the fragments add up to the final message\<close>

text \<open>
  Claim C2. In stream mode, when the upstream delivers chunks and then closes (so in
  particular when the chunks hold at least one well-formed data record followed by the
  \<^verbatim>\<open>[DONE]\<close> record), the outbound stream consists of the \<^verbatim>\<open>message_delta\<close> events followed
  by exactly one \<^verbatim>\<open>chat_complete\<close>, which is its last event and closes it; the content
  fields of the \<^verbatim>\<open>message_delta\<close> events, concatenated as strings in emission order, are
  the content of the last message of the chat that \<^verbatim>\<open>chat_complete\<close> carries, an assistant
  message. As long as the channel has not closed (reads \<open>pending\<close> without the end), no
  \<^verbatim>\<open>chat_complete\<close> has been emitted. The transcoder \<open>t\<close> is taken as
  \<^verbatim>\<open>transformStreamToV0Format\<close> returns it, with nothing enqueued and nothing accumulated
  (\<open>transform_initial\<close>); \<open>s\<close> is the state when the reads arrive.
\<close>

theorem stream_deltas_concat_to_final_message:
  assumes "enqueued t = []" and "assistantMessage t = []"
      and "reader t = map RValue chunks @ RDone # rest"
      and "start E t s = (t', s')"
      and "RDone \<notin> set pending"
  shows "\<exists>d final.
           enqueued t' = map (\<lambda>(x, i). MessageDelta x i) (message_deltas (enqueued t')) @
                           [ChatComplete d] \<and>
           chat_completes (enqueued t') = [d] \<and> controller t' = Closed \<and>
           c_messages d = c_messages (heap s (chat t)) @ [final] \<and> m_role final = Assistant \<and>
           m_content final =
             JString (concat (map (js_toString \<circ> fst) (message_deltas (enqueued t')))) \<and>
           chat_completes (enqueued (fst (start_loop E pending t s))) = []"
proof -
  have run: "start_loop E (map RValue chunks @ RDone # rest) t s = (t', s')"
    using assms(3,4) by (simp add: start_def)
  obtain ds final where
    out: "enqueued t' = map (\<lambda>x. MessageDelta x (assistantMessageId t)) ds @
                          [ChatComplete (heap s' (chat t))]"
    and closed: "controller t' = Closed"
    and msgs: "c_messages (heap s' (chat t)) = c_messages (heap s (chat t)) @ [final]"
    and final: "m_role final = Assistant"
               "m_content final = JString (concat (map js_toString ds))"
    using start_loop_done [OF run] assms(1,2) by auto
  have completes: "chat_completes (enqueued t') = [heap s' (chat t)]"
    by (simp add: out chat_completes_append chat_completes_map)
  obtain ps where "enqueued (fst (start_loop E pending t s)) =
      enqueued t @ map (\<lambda>x. MessageDelta x (assistantMessageId t)) ps"
    using start_loop_no_done [OF assms(5)] by blast
  then have none: "chat_completes (enqueued (fst (start_loop E pending t s))) = []"
    using assms(1) by (simp add: chat_completes_map)
  show ?thesis
    using closed msgs final completes none
    by (intro exI [of _ "heap s' (chat t)"] exI [of _ final])
       (simp add: out message_deltas_append message_deltas_map comp_def)
qed

text \<open>The stream \<^verbatim>\<open>Hel\<close>, \<^verbatim>\<open>lo\<close>, \<^verbatim>\<open>[DONE]\<close>, end: two fragments and the message \<^verbatim>\<open>Hello\<close>.\<close>

theorem stream_deltas_concat_to_final_message_witness:
  "enqueued (hello_transcoder hello_reads) = [] \<and>
   assistantMessage (hello_transcoder hello_reads) = [] \<and>
   message_deltas (enqueued (fst (start env_hi (hello_transcoder hello_reads) (after_hello env_hi)))) =
     [(JString ''Hel'', ''id3''), (JString ''lo'', ''id3'')] \<and>
   (\<exists>d final.
      chat_completes (enqueued (fst (start env_hi (hello_transcoder hello_reads) (after_hello env_hi)))) = [d] \<and>
      c_messages d = c_messages (heap (after_hello env_hi) 0) @ [final] \<and>
      m_content final = JString ''Hello'') \<and>
   chat_completes (enqueued (fst (start_loop env_hi (butlast hello_reads)
      (hello_transcoder hello_reads) (after_hello env_hi)))) = []"
proof -
  let ?t = "hello_transcoder hello_reads" and ?s = "after_hello env_hi"
  have fresh: "enqueued ?t = []" "assistantMessage ?t = []" "chat ?t = 0"
    by (simp_all add: hello_transcoder_def)
  obtain c1 c2 where reads: "reader ?t = map RValue [c1, c2] @ RDone # []"
    using hello_reads_shape by blast
  have pending: "RDone \<notin> set (butlast hello_reads)"
    by (simp add: hello_reads_def)
  show ?thesis
    using stream_deltas_concat_to_final_message [where E = env_hi and s = ?s, OF fresh(1,2) reads surjective_pairing pending]
          fresh hello_deltas [of ?s]
    by auto
qed

section \<open>C3: N turns append N user and N assistant messages\<close>

text \<open>
  Claim C3, amended. For every sequence of N sequential synchronous \<^verbatim>\<open>sendMessage\<close> calls
  that resolve against one session id held by the store, the stored session afterwards
  holds the messages it held before followed by exactly N user messages and N assistant
  messages, interleaved in turn order, the user messages carrying the texts of the calls.
  No message with role \<^verbatim>\<open>system\<close> is appended: the system instruction heads each of the N
  outgoing requests only.
\<close>

theorem send_all_appends_turns:
  assumes "getChat s k = Some c"
      and "\<forall>opt \<in> set opts. chatId opt = k \<and> responseMode opt \<noteq> Some Experimental_stream"
      and "send_all E client opts s = (Inr rs, s')"
  shows "getChat s' k = Some c \<and> rs = replicate (length opts) (ChatResult c) \<and>
         (\<exists>new. c_messages (heap s' c) = c_messages (heap s c) @ new \<and>
            map m_role new = concat (replicate (length opts) [User, Assistant]) \<and>
            map m_content (filter (\<lambda>m. m_role m = User) new) =
              map (\<lambda>opt. JString (message opt)) opts) \<and>
         (\<exists>reqs. fetched s' = fetched s @ reqs \<and> length reqs = length opts \<and>
            (\<forall>req \<in> set reqs. \<exists>older. body_messages (body req) =
               \<lparr>or_role = System, or_content = JString SYSTEM_PROMPT\<rparr> # older))"
  using assms by (rule send_all_appends)

text \<open>Two turns on the chat that \<^verbatim>\<open>hello\<close> created.\<close>

theorem send_all_appends_turns_witness:
  "\<exists>rs s'. send_all env_hi (adapter_client env_hi) two_more (after_hello env_hi) = (Inr rs, s') \<and>
     getChat s' ''id0'' = Some 0 \<and>
     map m_role (c_messages (heap s' 0)) = [User, Assistant, User, Assistant, User, Assistant] \<and>
     map m_content (filter (\<lambda>m. m_role m = User) (c_messages (heap s' 0))) =
       [JString ''hello'', JString ''one'', JString ''two'']"
proof -
  obtain rs s' where run:
    "send_all env_hi (adapter_client env_hi) two_more (after_hello env_hi) = (Inr rs, s')"
    using hi_resolves [of two_more] by auto
  have stored: "getChat (after_hello env_hi) ''id0'' = Some 0"
    unfolding env_hi_def by (simp add: getChat_def Map_get_def after_hello_fields)
  have opts: "\<forall>opt \<in> set two_more. chatId opt = ''id0'' \<and>
                responseMode opt \<noteq> Some Experimental_stream"
    by (simp add: two_more_def to_chat_def sync_options_def)
  have before: "c_messages (heap (after_hello env_hi) 0) =
              [\<lparr>m_id = Some ''id1'', m_role = User, m_content = JString ''hello'',
                m_created_at = Some 1000\<rparr>,
               \<lparr>m_id = Some ''id2'', m_role = Assistant, m_content = JString ''hi there'',
                m_created_at = Some 1001\<rparr>]"
    unfolding env_hi_def by (simp add: after_hello_fields)
  from send_all_appends_turns [OF stored opts run] obtain new where
    "getChat s' ''id0'' = Some 0"
    "c_messages (heap s' 0) = c_messages (heap (after_hello env_hi) 0) @ new"
    "map m_role new = concat (replicate (length two_more) [User, Assistant])"
    "map m_content (filter (\<lambda>m. m_role m = User) new) = map (\<lambda>opt. JString (message opt)) two_more"
    by blast
  then show ?thesis
    using run before
    by (intro exI [of _ rs] exI [of _ s']) (simp add: two_more_def to_chat_def sync_options_def)
qed

text \<open>
  Claim C3 as stated fails: a session reaches the store through \<^verbatim>\<open>createChat\<close>, with one
  user and one assistant message, so after N = 1 resolving \<^verbatim>\<open>sendMessage\<close> the stored
  session holds two user and two assistant messages, not one of each. (On an id the
  store does not hold, each call creates a chat under a new id, and no session is stored
  under the id that was given.)
\<close>

theorem send_all_count_counterexample:
  "\<exists>rs s'. send_all env_hi (adapter_client env_hi) [to_chat ''id0'' (sync_options ''one'')]
             (after_hello env_hi) = (Inr rs, s') \<and>
     getChat s' ''id0'' = Some 0 \<and>
     length (filter (\<lambda>m. m_role m = User) (c_messages (heap s' 0))) = 2 \<and>
     length (filter (\<lambda>m. m_role m = Assistant) (c_messages (heap s' 0))) = 2 \<and>
     getChat (snd (sendMessage env_hi (adapter_client env_hi)
                     (to_chat ''gone'' (sync_options ''hello'')) initial)) ''gone'' = None"
proof -
  have "sendMessage env_hi (adapter_client env_hi) (to_chat ''gone'' (sync_options ''hello''))
          initial =
        createChat env_hi (adapter_client env_hi) (sync_options ''hello'') initial"
    by (simp add: sendMessage_def Map_get_def initial_def to_chat_def sync_options_def)
  then have gone: "getChat (snd (sendMessage env_hi (adapter_client env_hi)
                     (to_chat ''gone'' (sync_options ''hello'')) initial)) ''gone'' = None"
    using after_hello_fields [of "\<lambda>n. Inr (json_response (completion_json ''hi there''))"]
    by (simp add: getChat_def Map_get_def after_hello_def env_hi_def)
  obtain rs s' where run:
    "send_all env_hi (adapter_client env_hi) [to_chat ''id0'' (sync_options ''one'')]
       (after_hello env_hi) = (Inr rs, s')"
    using hi_resolves [of "[to_chat ''id0'' (sync_options ''one'')]"]
    by (auto simp: two_more_def)
  have stored: "getChat (after_hello env_hi) ''id0'' = Some 0"
    unfolding env_hi_def by (simp add: getChat_def Map_get_def after_hello_fields)
  have opts: "\<forall>opt \<in> set [to_chat ''id0'' (sync_options ''one'')]. chatId opt = ''id0'' \<and>
                responseMode opt \<noteq> Some Experimental_stream"
    by (simp add: to_chat_def sync_options_def)
  have before: "c_messages (heap (after_hello env_hi) 0) =
              [\<lparr>m_id = Some ''id1'', m_role = User, m_content = JString ''hello'',
                m_created_at = Some 1000\<rparr>,
               \<lparr>m_id = Some ''id2'', m_role = Assistant, m_content = JString ''hi there'',
                m_created_at = Some 1001\<rparr>]"
    unfolding env_hi_def by (simp add: after_hello_fields)
  from send_all_appends [OF stored opts run] obtain new where
    new: "getChat s' ''id0'' = Some 0"
    "c_messages (heap s' 0) = c_messages (heap (after_hello env_hi) 0) @ new"
    "map m_role new = concat (replicate (length [to_chat ''id0'' (sync_options ''one'')]) [User, Assistant])"
    by blast
  from new(3) obtain u a where "new = [u, a]" "m_role u = User" "m_role a = Assistant"
    by (auto simp: map_eq_Cons_conv)
  then show ?thesis
    using run before new(1,2) gone
    by (intro exI [of _ rs] exI [of _ s']) simp
qed

section \<open>C4: a read error during transcoding\<close>

text \<open>
  Claim C4, amended. When a read of the upstream rejects during transcoding, the outbound
  stream ends in the error state with that error, no \<^verbatim>\<open>chat_complete\<close> event is emitted, and
  the transcoder itself changes neither the store nor any chat object: no assistant
  message is committed and no store write happens. For a turn started by \<^verbatim>\<open>sendMessage\<close>
  on a stored session, the stored session is therefore the one before the turn plus the
  user message that \<^verbatim>\<open>sendMessage\<close> pushed onto it before the completion call; for a turn
  started by \<^verbatim>\<open>createChat\<close> the store and every chat that existed are as before.
\<close>

theorem read_error_commits_nothing:
  assumes "reader t = map RValue chunks @ RError e # rest"
      and "chat_completes (enqueued t) = []"
      and "start E t sa = (t', sb)"
  shows "controller t' = Errored e \<and> chat_completes (enqueued t') = [] \<and>
         chatStore sb = chatStore sa \<and> heap sb = heap sa \<and>
         (\<forall>client options s c.
            getChat s (chatId options) = Some c \<and>
            sendMessage E client options s = (Inr (StreamResult t), sa) \<longrightarrow>
            chatStore sb = chatStore s \<and>
            (\<exists>u. c_messages (heap sb c) = c_messages (heap s c) @ [u] \<and>
                 m_role u = User \<and> m_content u = JString (message options))) \<and>
         (\<forall>client options s.
            createChat E client options s = (Inr (StreamResult t), sa) \<longrightarrow>
            chatStore sb = chatStore s \<and> (\<forall>c < heap_next s. heap sb c = heap s c))"
  using start_error_effect [OF assms]
  by (auto dest: sendMessage_stream_existing createChat_stream)

text \<open>A streamed second turn on the chat \<^verbatim>\<open>id0\<close> whose second read is rejected.\<close>

theorem read_error_commits_nothing_witness:
  "\<exists>s1. sendMessage env_broken (adapter_client env_broken) (to_chat ''id0'' (stream_options ''more''))
          (after_hello env_broken) = (Inr (StreamResult broken_transcoder), s1) \<and>
     controller (fst (start env_broken broken_transcoder s1)) = Errored (Error ''socket hang up'') \<and>
     chat_completes (enqueued (fst (start env_broken broken_transcoder s1))) = [] \<and>
     chatStore (snd (start env_broken broken_transcoder s1)) = [(''id0'', 0)] \<and>
     map m_role (c_messages (heap (snd (start env_broken broken_transcoder s1)) 0)) =
       [User, Assistant, User]"
proof -
  let ?s = "after_hello env_broken"
  let ?opts = "to_chat ''id0'' (stream_options ''more'')"
  let ?s1 = "snd (sendMessage env_broken (adapter_client env_broken) ?opts ?s)"
  note fields = after_hello_then [of "stream_response broken_reads", folded env_broken_def]
  have sent: "sendMessage env_broken (adapter_client env_broken) ?opts ?s =
                (Inr (StreamResult broken_transcoder), ?s1)"
    using broken_turn by (simp add: prod_eq_iff)
  have stored: "getChat ?s (chatId ?opts) = Some 0"
    by (simp add: getChat_def Map_get_def fields to_chat_def)
  obtain c1 where reads:
    "reader broken_transcoder = map RValue [c1] @ RError (Error ''socket hang up'') # []"
    using broken_reads_shape by blast
  have none: "chat_completes (enqueued broken_transcoder) = []"
    by (simp add: broken_transcoder_def)
  note c4 = read_error_commits_nothing [where E = env_broken and sa = ?s1, OF reads none surjective_pairing]
  from c4 have turn: "chatStore (snd (start env_broken broken_transcoder ?s1)) = chatStore ?s \<and>
      (\<exists>u. c_messages (heap (snd (start env_broken broken_transcoder ?s1)) 0) =
              c_messages (heap ?s 0) @ [u] \<and> m_role u = User)"
    using stored sent by blast
  show ?thesis
    using c4 turn sent fields by (intro exI [of _ ?s1]) auto
qed

text \<open>
  Claim C4 as stated fails: in that turn the stored session is not left unmodified. The
  store holds the chat by reference and \<^verbatim>\<open>sendMessage\<close> pushes the user message onto that
  object, so \<^verbatim>\<open>getChat\<close> gives two messages before the failed turn and three after it.
\<close>

theorem read_error_store_entry_counterexample:
  "\<exists>s1. sendMessage env_broken (adapter_client env_broken) (to_chat ''id0'' (stream_options ''more''))
          (after_hello env_broken) = (Inr (StreamResult broken_transcoder), s1) \<and>
     controller (fst (start env_broken broken_transcoder s1)) = Errored (Error ''socket hang up'') \<and>
     getChat (after_hello env_broken) ''id0'' = Some 0 \<and>
     getChat (snd (start env_broken broken_transcoder s1)) ''id0'' = Some 0 \<and>
     length (c_messages (heap (after_hello env_broken) 0)) = 2 \<and>
     length (c_messages (heap (snd (start env_broken broken_transcoder s1)) 0)) = 3"
proof -
  let ?s = "after_hello env_broken"
  let ?opts = "to_chat ''id0'' (stream_options ''more'')"
  let ?s1 = "snd (sendMessage env_broken (adapter_client env_broken) ?opts ?s)"
  note fields = after_hello_then [of "stream_response broken_reads", folded env_broken_def]
  have sent: "sendMessage env_broken (adapter_client env_broken) ?opts ?s =
                (Inr (StreamResult broken_transcoder), ?s1)"
    using broken_turn by (simp add: prod_eq_iff)
  have stored: "getChat ?s (chatId ?opts) = Some 0"
    by (simp add: getChat_def Map_get_def fields to_chat_def)
  obtain c1 where reads:
    "reader broken_transcoder = map RValue [c1] @ RError (Error ''socket hang up'') # []"
    using broken_reads_shape by blast
  have none: "chat_completes (enqueued broken_transcoder) = []"
    by (simp add: broken_transcoder_def)
  note failed = start_error_effect [where E = env_broken and s = ?s1, OF reads none surjective_pairing]
  note pushed = sendMessage_stream_existing [OF stored sent]
  have two: "length (c_messages (heap ?s 0)) = 2"
    using fields by (metis length_map length_Cons list.size(3) Suc_1 One_nat_def)
  show ?thesis
    using failed pushed sent stored fields two
    by (intro exI [of _ ?s1]) (auto simp: getChat_def Map_get_def to_chat_def)
qed

section \<open>C5: sendMessage on an unknown id is createChat\<close>

text \<open>
  Claim C5. When the store holds no chat under the given id, \<^verbatim>\<open>sendMessage\<close> returns what
  \<^verbatim>\<open>createChat\<close> returns for the same message, mode, model and credential, and leaves the
  same state: the same result (a chat under a newly drawn id, or a stream, or the error
  of the completion call) and no error of its own for the missing chat.
\<close>

theorem sendMessage_unknown_id_is_createChat:
  assumes "getChat s (chatId options) = None"
  shows "sendMessage E client options s =
           createChat E client
             \<lparr>message = message options, responseMode = responseMode options,
              model = model options, apiKey = apiKey options\<rparr> s"
  using assms by (simp add: sendMessage_def getChat_def createChat_mode)

text \<open>
  On a fresh adapter, \<^verbatim>\<open>sendMessage\<close> for the id \<^verbatim>\<open>gone\<close> creates the chat \<^verbatim>\<open>id0\<close>.
\<close>

theorem sendMessage_unknown_id_is_createChat_witness:
  "getChat initial (chatId (to_chat ''gone'' (sync_options ''hello''))) = None \<and>
   sendMessage env_hi (adapter_client env_hi) (to_chat ''gone'' (sync_options ''hello'')) initial =
     createChat env_hi (adapter_client env_hi) (sync_options ''hello'') initial \<and>
   fst (sendMessage env_hi (adapter_client env_hi) (to_chat ''gone'' (sync_options ''hello'')) initial) =
     Inr (ChatResult 0) \<and>
   chatStore (snd (sendMessage env_hi (adapter_client env_hi) (to_chat ''gone'' (sync_options ''hello'')) initial)) =
     [(''id0'', 0)]"
proof -
  have absent: "getChat initial (chatId (to_chat ''gone'' (sync_options ''hello''))) = None"
    by (simp add: getChat_def Map_get_def initial_def)
  have same: "\<lparr>message = message (to_chat ''gone'' (sync_options ''hello'')),
                responseMode = responseMode (to_chat ''gone'' (sync_options ''hello'')),
                model = model (to_chat ''gone'' (sync_options ''hello'')),
                apiKey = apiKey (to_chat ''gone'' (sync_options ''hello''))\<rparr> = sync_options ''hello''"
    by (simp add: to_chat_def sync_options_def)
  have created: "chatStore (after_hello env_hi) = [(''id0'', 0)]"
    unfolding env_hi_def by (simp add: after_hello_fields)
  have result: "fst (createChat env_hi (adapter_client env_hi) (sync_options ''hello'') initial) = Inr (ChatResult 0)"
    unfolding env_hi_def by (simp add: after_hello_fields)
  show ?thesis
    using sendMessage_unknown_id_is_createChat [OF absent, of env_hi "adapter_client env_hi"] absent created result
    by (simp add: same after_hello_def)
qed

section \<open>C6: the effective credential\<close>

text \<open>
  Claim C6. In every call of the completion client the effective credential is the
  caller's \<^verbatim>\<open>apiKey\<close> when one is given (a non-empty string), otherwise the key of the
  client, which for the adapter's client is the process-wide \<^verbatim>\<open>OPENROUTER_API_KEY\<close>. When
  there is one, the request sent carries it as \<^verbatim>\<open>Authorization: Bearer <key>\<close>. When there
  is none, the call fails with the error that asks for an API key and nothing is sent;
  \<^verbatim>\<open>createChat\<close> then fails with that error, nothing is sent, the store is as before and
  so is every chat object that existed.
\<close>

theorem effective_credential_resolution:
  assumes "createChatCompletion E this ms mo so key s = (r, s')"
      and "createChat E this options s = (ra, sa)"
  shows "effectiveApiKey this key =
           (case key of None \<Rightarrow> this_apiKey this
            | Some k \<Rightarrow> if k = [] then this_apiKey this else k) \<and>
         this_apiKey (fst (OpenRouterClient_new E None si)) =
           (case env_OPENROUTER_API_KEY E of None \<Rightarrow> [] | Some k \<Rightarrow> k) \<and>
         (if effectiveApiKey this key = []
          then r = Inl (Error ''OpenRouter API key is required. Please configure an API key in settings.'') \<and>
               fetched s' = fetched s
          else \<exists>req. fetched s' = fetched s @ [req] \<and>
                 Authorization req = ''Bearer '' @ effectiveApiKey this key) \<and>
         (if effectiveApiKey this (apiKey options) = []
          then ra = Inl (Error ''OpenRouter API key is required. Please configure an API key in settings.'') \<and>
               fetched sa = fetched s \<and> chatStore sa = chatStore s \<and>
               (\<forall>c < heap_next s. heap sa c = heap s c)
          else \<exists>req. fetched sa = fetched s @ [req] \<and>
                 Authorization req = ''Bearer '' @ effectiveApiKey this (apiKey options))"
proof -
  have 1: "effectiveApiKey this key =
           (case key of None \<Rightarrow> this_apiKey this
            | Some k \<Rightarrow> if k = [] then this_apiKey this else k)"
    by (simp add: effectiveApiKey_def str_or_def)
  have 2: "this_apiKey (fst (OpenRouterClient_new E None si)) =
           (case env_OPENROUTER_API_KEY E of None \<Rightarrow> [] | Some k \<Rightarrow> k)"
    by (simp add: OpenRouterClient_new_def str_or_def Let_def split: option.splits)
  have 3: "(if effectiveApiKey this key = []
          then r = Inl (Error ''OpenRouter API key is required. Please configure an API key in settings.'') \<and>
               fetched s' = fetched s
          else \<exists>req. fetched s' = fetched s @ [req] \<and>
                 Authorization req = ''Bearer '' @ effectiveApiKey this key)"
    using assms(1) createChatCompletion_sends [OF _ assms(1)]
    by (auto simp: createChatCompletion_no_key)
  have 4: "(if effectiveApiKey this (apiKey options) = []
          then ra = Inl (Error ''OpenRouter API key is required. Please configure an API key in settings.'') \<and>
               fetched sa = fetched s \<and> chatStore sa = chatStore s \<and>
               (\<forall>c < heap_next s. heap sa c = heap s c)
          else \<exists>req. fetched sa = fetched s @ [req] \<and>
                 Authorization req = ''Bearer '' @ effectiveApiKey this (apiKey options))"
  proof (cases "effectiveApiKey this (apiKey options) = []")
    case True
    then show ?thesis
      using assms(2)
      by (auto simp: createChat_def state_ops createChatCompletion_no_key Let_def split: if_splits)
  next
    case False
    then show ?thesis
      using createChat_sends [OF False assms(2)] by auto
  qed
  show ?thesis using 1 2 3 4 by blast
qed

text \<open>
  Without any key nothing is sent; with the fallback key, and with a caller's key in a
  process that has no fallback, the request carries that key.
\<close>

theorem effective_credential_resolution_witness:
  "effectiveApiKey (adapter_client env_no_key) None = [] \<and>
   fst (createChat env_no_key (adapter_client env_no_key) (sync_options ''hello'') initial) =
     Inl (Error ''OpenRouter API key is required. Please configure an API key in settings.'') \<and>
   fetched (snd (createChat env_no_key (adapter_client env_no_key) (sync_options ''hello'') initial)) = [] \<and>
   chatStore (snd (createChat env_no_key (adapter_client env_no_key) (sync_options ''hello'') initial)) = [] \<and>
   map Authorization
     (fetched (snd (createChat env_hi (adapter_client env_hi) (sync_options ''hello'') initial))) =
     [''Bearer sk-env''] \<and>
   map Authorization
     (fetched (snd (createChat env_no_key (adapter_client env_no_key)
                      ((sync_options ''hello'')\<lparr>apiKey := Some ''sk-user''\<rparr>) initial))) =
     [''Bearer sk-user'']"
proof -
  have none: "apiKey (sync_options ''hello'') = None"
             "effectiveApiKey (adapter_client env_no_key) None = []"
    by (simp_all add: env_no_key_def demo_defs)
  have fallback: "effectiveApiKey (adapter_client env_hi) None = ''sk-env''"
    by (simp add: env_hi_def demo_defs)
  have given: "apiKey ((sync_options ''hello'')\<lparr>apiKey := Some ''sk-user''\<rparr>) = Some ''sk-user''"
              "effectiveApiKey (adapter_client env_no_key) (Some ''sk-user'') = ''sk-user''"
    by (simp_all add: env_no_key_def demo_defs)
  have start: "fetched initial = []" "chatStore initial = []"
    by (simp_all add: initial_def)
  have a: "fst (createChat env_no_key (adapter_client env_no_key) (sync_options ''hello'') initial) =
             Inl (Error ''OpenRouter API key is required. Please configure an API key in settings.'') \<and>
           fetched (snd (createChat env_no_key (adapter_client env_no_key) (sync_options ''hello'') initial)) = [] \<and>
           chatStore (snd (createChat env_no_key (adapter_client env_no_key) (sync_options ''hello'') initial)) = []"
    using effective_credential_resolution [where E = env_no_key and this = "adapter_client env_no_key" and ms = "[]"
              and mo = None and so = None and key = None and s = initial and si = initial
              and options = "sync_options ''hello''",
            OF surjective_pairing surjective_pairing,
            THEN conjunct2, THEN conjunct2, THEN conjunct2]
    by (simp add: none start)
  obtain req where "fetched (snd (createChat env_hi (adapter_client env_hi) (sync_options ''hello'') initial)) = [req]"
      and "Authorization req = ''Bearer sk-env''"
    using effective_credential_resolution [where E = env_hi and this = "adapter_client env_hi" and ms = "[]"
              and mo = None and so = None and key = None and s = initial and si = initial
              and options = "sync_options ''hello''",
            OF surjective_pairing surjective_pairing,
            THEN conjunct2, THEN conjunct2, THEN conjunct2]
    by (auto simp: none fallback start)
  then have b: "map Authorization
     (fetched (snd (createChat env_hi (adapter_client env_hi) (sync_options ''hello'') initial))) =
     [''Bearer sk-env'']"
    by simp
  obtain req where "fetched (snd (createChat env_no_key (adapter_client env_no_key)
                      ((sync_options ''hello'')\<lparr>apiKey := Some ''sk-user''\<rparr>) initial)) = [req]"
      and "Authorization req = ''Bearer sk-user''"
    using effective_credential_resolution [where E = env_no_key and this = "adapter_client env_no_key" and ms = "[]"
              and mo = None and so = None and key = None and s = initial and si = initial
              and options = "(sync_options ''hello'')\<lparr>apiKey := Some ''sk-user''\<rparr>",
            OF surjective_pairing surjective_pairing,
            THEN conjunct2, THEN conjunct2, THEN conjunct2]
    by (auto simp: given start)
  then have c: "map Authorization
     (fetched (snd (createChat env_no_key (adapter_client env_no_key)
                      ((sync_options ''hello'')\<lparr>apiKey := Some ''sk-user''\<rparr>) initial))) =
     [''Bearer sk-user'']"
    by simp
  show ?thesis
    using a b c none by simp
qed

section \<open>C7: a non-success status\<close>

text \<open>
  Claim C7, amended. When the upstream answers with a status outside 200 to 299 and its
  body text can be read, the completion client fails with an \<^verbatim>\<open>Error\<close> whose message is
  \<^verbatim>\<open>OpenRouter API error: <status> <statusText>\<close>: it carries the numeric status and the
  status text. The body text is written to the console and is not part of the error. A
  synchronous \<^verbatim>\<open>createChat\<close> fails with the same error (with status 401, the message
  holds 401), the store is as before, and so is every chat object that existed.
\<close>

theorem upstream_status_error_carries_status:
  assumes "effectiveApiKey client (apiKey options) \<noteq> []"
      and "fetch_src E (length (fetched s)) = Inr response" and "\<not> ok response"
      and "text_result response = Inr errorText"
  shows "\<exists>s1 s2.
           createChatCompletion E client ms mo so (apiKey options) s =
             (Inl (Error (''OpenRouter API error: '' @ decimal (status response) @ '' '' @
                          statusText response)), s1) \<and>
           last (console s1) = Error_api (status response) (statusText response) errorText \<and>
           createChat E client options s =
             (Inl (Error (''OpenRouter API error: '' @ decimal (status response) @ '' '' @
                          statusText response)), s2) \<and>
           chatStore s2 = chatStore s \<and> (\<forall>c < heap_next s. heap s2 c = heap s c)"
  using assms
  by (auto simp: createChat_def state_ops Let_def createChatCompletion_status)

text \<open>A 401 on a fresh adapter.\<close>

theorem upstream_status_error_carries_status_witness:
  "fst (createChat (env_status ''No auth credentials found'')
          (adapter_client (env_status ''No auth credentials found''))
          (sync_options ''hello'') initial) =
     Inl (Error ''OpenRouter API error: 401 Unauthorized'') \<and>
   chatStore (snd (createChat (env_status ''No auth credentials found'')
          (adapter_client (env_status ''No auth credentials found''))
          (sync_options ''hello'') initial)) = []"
proof -
  let ?E = "env_status ''No auth credentials found''"
  have key: "effectiveApiKey (adapter_client ?E) (apiKey (sync_options ''hello'')) \<noteq> []"
    by (simp add: env_status_def demo_defs)
  have answer: "fetch_src ?E (length (fetched initial)) =
      Inr (error_response 401 ''Unauthorized'' ''No auth credentials found'')"
    by (simp add: env_status_def demo_env_def)
  have bad: "\<not> ok (error_response 401 ''Unauthorized'' ''No auth credentials found'')"
    by (simp add: ok_def error_response_def)
  have body: "text_result (error_response 401 ''Unauthorized'' ''No auth credentials found'') =
                Inr ''No auth credentials found''"
    by (simp add: error_response_def)
  show ?thesis
    using upstream_status_error_carries_status [OF key answer bad body, of "[]" None None]
    by (auto simp: error_response_def decimal_401 initial_def)
qed

text \<open>
  Claim C7 as stated fails: two 401 answers whose bodies differ make \<^verbatim>\<open>createChat\<close> fail
  with one and the same error, so the error does not carry the body text.
\<close>

theorem upstream_status_error_body_counterexample:
  "text_result (error_response 401 ''Unauthorized'' ''invalid key'') \<noteq>
     text_result (error_response 401 ''Unauthorized'' ''account suspended'') \<and>
   fst (createChat (env_status ''invalid key'') (adapter_client (env_status ''invalid key''))
          (sync_options ''hello'') initial) =
     Inl (Error ''OpenRouter API error: 401 Unauthorized'') \<and>
   fst (createChat (env_status ''account suspended'')
          (adapter_client (env_status ''account suspended'')) (sync_options ''hello'') initial) =
     Inl (Error ''OpenRouter API error: 401 Unauthorized'')"
  by (simp add: createChat_def state_ops Let_def createChatCompletion_status env_status_def
        demo_defs decimal_401)

section \<open>C8: records that carry no content\<close>

text \<open>
  Claim C8. A chunk each of whose lines is not prefixed with \<^verbatim>\<open>data: \<close>, or is the
  \<^verbatim>\<open>[DONE]\<close> record, or is a data record whose payload is malformed JSON, or is a data
  record whose payload holds no content fragment (none at \<^verbatim>\<open>choices[0].delta.content\<close>, or
  a falsy one) leaves the transcoder as it was: no \<^verbatim>\<open>message_delta\<close> is emitted and the
  stream is not terminated, the loop going on with the following reads. A line without
  the \<^verbatim>\<open>data: \<close> prefix has no effect whatever the parser would say of it.
\<close>

theorem inert_records_emit_nothing:
  assumes "\<forall>line \<in> set (split_lines chunk).
             \<not> startsWith line ''data: '' \<or>
             drop 6 line = ''[DONE]'' \<or>
             (\<exists>e. JSON_parse E (drop 6 line) = Inl e) \<or>
             (\<exists>parsed. JSON_parse E (drop 6 line) = Inr parsed \<and>
                (\<forall>content. delta_content parsed = Inr (Some content) \<longrightarrow> \<not> truthy (Some content)))"
  shows "process_chunk E chunk t = t \<and>
         start_loop E (RValue chunk # rest) t s = start_loop E rest t s \<and>
         (\<forall>line E'. \<not> startsWith line ''data: '' \<longrightarrow> process_line E' line t = t)"
proof -
  have inert: "process_line E line u = u" if "line \<in> set (split_lines chunk)" for line u
    using assms that
    by (auto simp: process_line_def Let_def split: sum.splits option.splits)
  have "fold (process_line E) ls t = t" if "set ls \<subseteq> set (split_lines chunk)" for ls
    using that by (induction ls) (auto simp: inert)
  then have "process_chunk E chunk t = t"
    by (simp add: process_chunk_def)
  then show ?thesis
    by (simp add: process_line_def)
qed

text \<open>
  A chunk with a comment line, a record without content, a truncated record and the
  sentinel.
\<close>

theorem inert_records_emit_nothing_witness:
  \<open>split_lines quiet_chunk =
     ['': keep-alive'', ''data: {"choices":[{"delta":{}}]}'', [], ''data: {"choi'', [],
      ''data: [DONE]'', [], []] \<and>
   process_chunk env_hi quiet_chunk (hello_transcoder hello_reads) = hello_transcoder hello_reads \<and>
   start_loop env_hi (RValue quiet_chunk # hello_reads) (hello_transcoder hello_reads)
       (after_hello env_hi) =
     start_loop env_hi hello_reads (hello_transcoder hello_reads) (after_hello env_hi) \<and>
   process_line env_no_key '': keep-alive'' (hello_transcoder hello_reads) =
     hello_transcoder hello_reads\<close>
proof -
  have inert: \<open>\<forall>line \<in> set (split_lines quiet_chunk).
             \<not> startsWith line ''data: '' \<or>
             drop 6 line = ''[DONE]'' \<or>
             (\<exists>e. JSON_parse env_hi (drop 6 line) = Inl e) \<or>
             (\<exists>parsed. JSON_parse env_hi (drop 6 line) = Inr parsed \<and>
                (\<forall>content. delta_content parsed = Inr (Some content) \<longrightarrow> \<not> truthy (Some content)))\<close>
    unfolding quiet_lines
    by (simp add: startsWith_def env_hi_def demo_env_def demo_parse_def delta_json_def
          delta_content_def member_def opt_member_def opt_index0_def)
  have comment: "\<not> startsWith '': keep-alive'' ''data: ''"
    by (simp add: startsWith_def)
  show ?thesis
    using inert_records_emit_nothing [OF inert, of "hello_transcoder hello_reads" hello_reads "after_hello env_hi"]
          comment quiet_lines
    by simp
qed

section \<open>C9: the fallback text\<close>

text \<open>
  Claim C9, at a failing input. The upstream answers 200 with the JSON body \<^verbatim>\<open>{}\<close>, a
  response that contains no choices. The synchronous \<^verbatim>\<open>createChat\<close> then fails with the
  TypeError of \<^verbatim>\<open>response.choices[0]\<close> and stores nothing, and so does \<^verbatim>\<open>sendMessage\<close> on a
  stored chat: no assistant message with the fallback text is appended. (When \<^verbatim>\<open>choices\<close>
  is an array the fallback works, see \<open>sync_content_array\<close> and \<open>sync_fallback_cases\<close>.)
\<close>

theorem sync_missing_choices_throws:
  "fst (createChat env_no_choices (adapter_client env_no_choices) (sync_options ''hello'') initial) =
     Inl (TypeError ''Cannot read properties of undefined'') \<and>
   chatStore (snd (createChat env_no_choices (adapter_client env_no_choices)
                     (sync_options ''hello'') initial)) = [] \<and>
   fst (sendMessage env_then_no_choices (adapter_client env_then_no_choices)
          (to_chat ''id0'' (sync_options ''more'')) (after_hello env_then_no_choices)) =
     Inl (TypeError ''Cannot read properties of undefined'')"
proof -
  have thrown: "sync_content (JObject []) = Inl (TypeError ''Cannot read properties of undefined'')"
    by (simp add: sync_content_missing_choices)
  have ok: "ok (json_response (JObject []))"
    by (simp add: ok_def json_response_def)
  have body: "json_result (json_response (JObject [])) = Inr (JObject [])"
    by (simp add: json_response_def)
  have mode: "responseMode (sync_options ''hello'') \<noteq> Some Experimental_stream"
    by (simp add: sync_options_def)
  have key: "effectiveApiKey (adapter_client env_no_choices) (apiKey (sync_options ''hello'')) \<noteq> []"
    by (simp add: env_no_choices_def demo_defs)
  have answer: "fetch_src env_no_choices (length (fetched initial)) = Inr (json_response (JObject []))"
    by (simp add: env_no_choices_def demo_env_def)
  have created: "fst (createChat env_no_choices (adapter_client env_no_choices)
                   (sync_options ''hello'') initial) =
                   Inl (TypeError ''Cannot read properties of undefined'') \<and>
                 chatStore (snd (createChat env_no_choices (adapter_client env_no_choices)
                     (sync_options ''hello'') initial)) = []"
    using createChat_sync_throws [OF mode key answer ok body thrown]
    by (auto simp: initial_def)
  let ?E = env_then_no_choices and ?opts = "to_chat ''id0'' (sync_options ''more'')"
  note fields = after_hello_then [of "json_response (JObject [])", folded env_then_no_choices_def]
  have stored: "getChat (after_hello ?E) (chatId ?opts) = Some 0"
    by (simp add: getChat_def Map_get_def fields to_chat_def)
  have mode': "responseMode ?opts \<noteq> Some Experimental_stream"
    by (simp add: to_chat_def sync_options_def)
  have key': "effectiveApiKey (adapter_client ?E) (apiKey ?opts) \<noteq> []"
    by (simp add: env_then_no_choices_def env_then_def demo_defs)
  have answer': "fetch_src ?E (length (fetched (after_hello ?E))) = Inr (json_response (JObject []))"
    by (simp add: fields) (simp add: env_then_no_choices_def env_then_def demo_env_def)
  have sent: "fst (sendMessage ?E (adapter_client ?E) ?opts (after_hello ?E)) =
                Inl (TypeError ''Cannot read properties of undefined'')"
    using sendMessage_sync_throws [OF stored mode' key' answer' ok body thrown]
    by auto
  show ?thesis
    using created sent by simp
qed

section \<open>C10: one message id per streamed turn\<close>

text \<open>
  Claim C10. Within one stream-mode turn every \<^verbatim>\<open>message_delta\<close> event carries the same
  \<^verbatim>\<open>messageId\<close>, the one drawn when the transcoder was set up, and that id is the id of the
  assistant message appended to the chat that the final \<^verbatim>\<open>chat_complete\<close> carries. The
  events emitted before the channel closes (reads \<open>pending\<close> without the end) carry that
  id too. The transcoder \<open>t\<close> is taken as \<^verbatim>\<open>transformStreamToV0Format\<close> returns it, with
  nothing enqueued.
\<close>

theorem stream_deltas_share_message_id:
  assumes "enqueued t = []"
      and "reader t = map RValue chunks @ RDone # rest"
      and "start E t s = (t', s')"
      and "RDone \<notin> set pending"
  shows "\<exists>d final.
           chat_completes (enqueued t') = [d] \<and>
           c_messages d = c_messages (heap s (chat t)) @ [final] \<and>
           m_role final = Assistant \<and>
           m_id final = Some (assistantMessageId t) \<and>
           map snd (message_deltas (enqueued t')) =
             replicate (length (message_deltas (enqueued t'))) (assistantMessageId t) \<and>
           map snd (message_deltas (enqueued (fst (start_loop E pending t s)))) =
             replicate (length (message_deltas (enqueued (fst (start_loop E pending t s)))))
               (assistantMessageId t)"
proof -
  have run: "start_loop E (map RValue chunks @ RDone # rest) t s = (t', s')"
    using assms(2,3) by (simp add: start_def)
  obtain ds final where
    out: "enqueued t' = map (\<lambda>x. MessageDelta x (assistantMessageId t)) ds @
                          [ChatComplete (heap s' (chat t))]"
    and msgs: "c_messages (heap s' (chat t)) = c_messages (heap s (chat t)) @ [final]"
    and final: "m_role final = Assistant" "m_id final = Some (assistantMessageId t)"
    using start_loop_done [OF run] assms(1) by auto
  obtain ps where "enqueued (fst (start_loop E pending t s)) =
      enqueued t @ map (\<lambda>x. MessageDelta x (assistantMessageId t)) ps"
    using start_loop_no_done [OF assms(4)] by blast
  then have early: "map snd (message_deltas (enqueued (fst (start_loop E pending t s)))) =
             replicate (length (message_deltas (enqueued (fst (start_loop E pending t s)))))
               (assistantMessageId t)"
    using assms(1) by (simp add: message_deltas_map comp_def map_replicate_const)
  show ?thesis
    using msgs final early
    by (intro exI [of _ "heap s' (chat t)"] exI [of _ final])
       (simp add: out message_deltas_append message_deltas_map chat_completes_append
          chat_completes_map comp_def map_replicate_const)
qed

text \<open>The example stream: both fragments and the final message carry \<^verbatim>\<open>id3\<close>.\<close>

theorem stream_deltas_share_message_id_witness:
  "enqueued (hello_transcoder hello_reads) = [] \<and>
   map snd (message_deltas
     (enqueued (fst (start env_hi (hello_transcoder hello_reads) (after_hello env_hi))))) =
     [''id3'', ''id3''] \<and>
   (\<exists>d final.
      chat_completes (enqueued (fst (start env_hi (hello_transcoder hello_reads) (after_hello env_hi)))) = [d] \<and>
      c_messages d = c_messages (heap (after_hello env_hi) 0) @ [final] \<and>
      m_id final = Some ''id3'')"
proof -
  let ?t = "hello_transcoder hello_reads" and ?s = "after_hello env_hi"
  have fresh: "enqueued ?t = []" "chat ?t = 0" "assistantMessageId ?t = ''id3''"
    by (simp_all add: hello_transcoder_def)
  obtain c1 c2 where reads: "reader ?t = map RValue [c1, c2] @ RDone # []"
    using hello_reads_shape by blast
  have pending: "RDone \<notin> set (butlast hello_reads)"
    by (simp add: hello_reads_def)
  show ?thesis
    using stream_deltas_share_message_id
            [where E = env_hi and s = ?s, OF fresh(1) reads surjective_pairing pending]
          fresh hello_deltas [of ?s]
    by auto
qed

end
